theory Spec2Isabelle
  imports Complex_Main "HOL-Library.Sublist"
begin

section \<open>Shared data: identifiers, numbers, exceptions, replies\<close>

text \<open>
  An ObjectId is written as its canonical string (24 lower-case hexadecimal digits), which is
  what \<^verbatim>\<open>toString()\<close> and the \<^verbatim>\<open>id\<close> getter of a document return. A count that the
  code only compares or stores (a length, a page number) is a natural number or a rational;
  the numbers it computes with are doubles, modelled below. A Date is a count of
  milliseconds.
\<close>

type_synonym objectId = string
type_synonym date = nat

datatype exn = TypeError | CastError | ValidationError | MongoError

text \<open>Every schema sets \<^verbatim>\<open>createdAt\<close>, by a default or by \<^verbatim>\<open>timestamps: true\<close>.\<close>

record timestamped =
  createdAt :: date

text \<open>
  What a handler sends: \<^verbatim>\<open>res.json(payload)\<close>, \<^verbatim>\<open>res.status(n).json({ message })\<close> or
  \<^verbatim>\<open>res.status(n).send(text)\<close>.
\<close>

datatype 'a reply =
    Sent 'a
  | SentMessage nat string
  | SentText nat string
  | SentErrors nat "string list"

text \<open>
  Modelled from the spec: the User schema (\<^verbatim>\<open>models/User.js\<close>), of which the middleware and
  the handlers read \<^verbatim>\<open>req.user.id\<close> and \<^verbatim>\<open>req.user.role\<close>; the roles are \<^verbatim>\<open>user\<close>,
  \<^verbatim>\<open>moderator\<close> and \<^verbatim>\<open>admin\<close>.
\<close>

record user =
  user_id :: objectId
  role :: string

text \<open>
  A string becomes an ObjectId when it is 24 hexadecimal digits; the case of the letters is
  not kept, and the canonical string is the lower-case one. Any other string makes Mongoose
  throw a CastError (whose \<^verbatim>\<open>kind\<close> is \<^verbatim>\<open>ObjectId\<close>).
\<close>

definition isHexDigit :: "char \<Rightarrow> bool" where
  "isHexDigit c \<longleftrightarrow> c \<in> set ''0123456789abcdefABCDEF''"

definition lowerHex :: "char \<Rightarrow> char" where
  "lowerHex c =
     (if c = CHR ''A'' then CHR ''a'' else if c = CHR ''B'' then CHR ''b''
      else if c = CHR ''C'' then CHR ''c'' else if c = CHR ''D'' then CHR ''d''
      else if c = CHR ''E'' then CHR ''e'' else if c = CHR ''F'' then CHR ''f'' else c)"

definition castObjectId :: "string \<Rightarrow> exn + objectId" where
  "castObjectId s =
     (if length s = 24 \<and> list_all isHexDigit s then Inr (map lowerHex s) else Inl CastError)"

text \<open>
  A collection is the list of its documents. \<^verbatim>\<open>Model.findById(id)\<close> casts the string and
  yields the document with that \<^verbatim>\<open>_id\<close>, or null.
\<close>

definition findById :: "('a \<Rightarrow> objectId) \<Rightarrow> 'a list \<Rightarrow> string \<Rightarrow> exn + 'a option" where
  "findById key coll s =
     (case castObjectId s of
        Inl e \<Rightarrow> Inl e
      | Inr i \<Rightarrow> Inr (find (\<lambda>d. key d = i) coll))"

text \<open>Saving a loaded document replaces the stored one; removing it deletes the stored one.\<close>

definition saveDoc :: "('a \<Rightarrow> objectId) \<Rightarrow> 'a list \<Rightarrow> 'a \<Rightarrow> 'a list" where
  "saveDoc key coll d = map (\<lambda>x. if key x = key d then d else x) coll"

definition removeDoc :: "('a \<Rightarrow> objectId) \<Rightarrow> 'a list \<Rightarrow> 'a \<Rightarrow> 'a list" where
  "removeDoc key coll d = filter (\<lambda>x. key x \<noteq> key d) coll"

text \<open>\<^verbatim>\<open>Array.prototype.findIndex\<close>: the first index whose element passes, or -1.\<close>

fun findIndex :: "('a \<Rightarrow> bool) \<Rightarrow> 'a list \<Rightarrow> int" where
  "findIndex p [] = - 1"
| "findIndex p (x # xs) =
     (if p x then 0 else (let i = findIndex p xs in if i = - 1 then - 1 else i + 1))"

section \<open>JavaScript numbers\<close>

text \<open>
  A Number is an IEEE 754 binary64 value: a finite one, written here as the rational it
  denotes, one of the two infinities, or NaN. The two zeros are not told apart.
\<close>

datatype number = Fin rat | PosInf | NegInf | NaN

text \<open>Rounding a rational to the nearest integer, a half to the even neighbour.\<close>

definition rne :: "rat \<Rightarrow> int" where
  "rne q =
     (let f = \<lfloor>q\<rfloor>; r = q - of_int f
      in if r < 1 / 2 then f else if 1 / 2 < r then f + 1 else if even f then f else f + 1)"

text \<open>
  The binary exponent of a positive rational \<open>a\<close>, the \<open>e\<close> with \<open>2 ^ e \<le> a < 2 ^ (e + 1)\<close>,
  kept within the exponents of the format: not below -1022 (smaller values are subnormal)
  and not above 1024 (such values overflow).
\<close>

fun expo_up :: "nat \<Rightarrow> rat \<Rightarrow> int" where
  "expo_up n a = (if n = 0 \<or> a < 2 then 0 else 1 + expo_up (n - 1) (a / 2))"

fun expo_down :: "nat \<Rightarrow> rat \<Rightarrow> int" where
  "expo_down n a = (if n = 0 \<or> 1 \<le> a then 0 else expo_down (n - 1) (2 * a) - 1)"

definition binade :: "rat \<Rightarrow> int" where
  "binade a = (if 1 \<le> a then expo_up 1024 a else expo_down 1022 a)"

text \<open>
  Round to nearest, ties to even, with 53 significant bits: the spacing of the doubles around
  \<open>a\<close> is \<open>2 ^ (binade a - 52)\<close>.
\<close>

definition round64 :: "rat \<Rightarrow> rat" where
  "round64 x =
     (if x = 0 then 0
      else (let a = \<bar>x\<bar>; u = power_int 2 (binade a - 52)
            in sgn x * (of_int (rne (a / u)) * u)))"

text \<open>The double that an exact result becomes; a magnitude of \<open>2 ^ 1024\<close> is an infinity.\<close>

definition fl :: "rat \<Rightarrow> number" where
  "fl x =
     (let r = round64 x
      in if 2 ^ 1024 \<le> r then PosInf else if r \<le> - (2 ^ 1024) then NegInf else Fin r)"

text \<open>\<^verbatim>\<open>x + y\<close>\<close>

fun num_add :: "number \<Rightarrow> number \<Rightarrow> number" where
  "num_add NaN y = NaN"
| "num_add x NaN = NaN"
| "num_add PosInf NegInf = NaN"
| "num_add NegInf PosInf = NaN"
| "num_add PosInf y = PosInf"
| "num_add x PosInf = PosInf"
| "num_add NegInf y = NegInf"
| "num_add x NegInf = NegInf"
| "num_add (Fin a) (Fin b) = fl (a + b)"

text \<open>
  \<^verbatim>\<open>x / d\<close> and \<^verbatim>\<open>x * d\<close> for a finite positive \<open>d\<close>: the divisors and factors in the sources
  are the constants 10, 100 and 1000 and the length of a non-empty array.
\<close>

fun num_div_pos :: "number \<Rightarrow> rat \<Rightarrow> number" where
  "num_div_pos (Fin a) d = fl (a / d)"
| "num_div_pos x d = x"

fun num_mul_pos :: "number \<Rightarrow> rat \<Rightarrow> number" where
  "num_mul_pos (Fin a) d = fl (a * d)"
| "num_mul_pos x d = x"

text \<open>\<^verbatim>\<open>Math.min(x, y)\<close>\<close>

fun num_min :: "number \<Rightarrow> number \<Rightarrow> number" where
  "num_min NaN y = NaN"
| "num_min x NaN = NaN"
| "num_min NegInf y = NegInf"
| "num_min x NegInf = NegInf"
| "num_min PosInf y = y"
| "num_min x PosInf = x"
| "num_min (Fin a) (Fin b) = Fin (min a b)"

text \<open>
  \<^verbatim>\<open>Math.round(x)\<close>: the nearest integer, a half towards plus infinity; the result of a
  double is a double.
\<close>

fun math_round :: "number \<Rightarrow> number" where
  "math_round (Fin x) = Fin (of_int \<lfloor>x + 1 / 2\<rfloor>)"
| "math_round x = x"

text \<open>Truthiness of a number, and \<^verbatim>\<open>x <= y\<close>.\<close>

fun truthy :: "number \<Rightarrow> bool" where
  "truthy (Fin x) = (x \<noteq> 0)"
| "truthy NaN = False"
| "truthy x = True"

fun num_le :: "number \<Rightarrow> number \<Rightarrow> bool" where
  "num_le NaN y = False"
| "num_le x NaN = False"
| "num_le NegInf y = True"
| "num_le x PosInf = True"
| "num_le x NegInf = False"
| "num_le PosInf y = False"
| "num_le (Fin a) (Fin b) = (a \<le> b)"

section \<open>models/Initiative.js and models/Event.js\<close>

record feedbackEntry = timestamped +
  user :: "objectId option"
  rating :: number
  comment :: "string option"

text \<open>
  Both schemas declare the same three rating paths; they are the common part of the two
  document records. Schema paths that no modelled operation reads or writes are left out.
\<close>

record rated =
  feedback :: "feedbackEntry list"
  averageRating :: number
  totalRatings :: nat

record impactMetrics =
  peopleReached :: number
  hoursVolunteered :: number
  fundsRaised :: number
  environmentalImpact :: number
  socialConnections :: number

record initiative = rated +
  initiative_id :: objectId
  creator :: objectId
  members :: "objectId list"
  impactScore :: number
  impactMetrics :: impactMetrics

text \<open>
  The score that \<^verbatim>\<open>calculateImpactScore\<close> accumulates before rounding: \<^verbatim>\<open>let score = 0\<close>
  and five times \<^verbatim>\<open>score += Math.min(..., cap)\<close>, each step in double arithmetic.
\<close>

definition impactSum :: "impactMetrics \<Rightarrow> number" where
  "impactSum metrics =
     (let score0 = Fin 0;
          score1 = num_add score0 (num_min (num_div_pos (peopleReached metrics) 100) (Fin 25));
          score2 = num_add score1 (num_min (num_div_pos (hoursVolunteered metrics) 100) (Fin 25));
          score3 = num_add score2 (num_min (num_div_pos (fundsRaised metrics) 1000) (Fin 20));
          score4 = num_add score3 (num_min (environmentalImpact metrics) (Fin 15));
          score5 = num_add score4 (num_min (num_div_pos (socialConnections metrics) 10) (Fin 15))
      in score5)"

text \<open>The method stores the rounded score in the document and returns it.\<close>

definition calculateImpactScore :: "initiative \<Rightarrow> initiative \<times> number" where
  "calculateImpactScore this =
     (let score = impactSum (impactMetrics this);
          this' = this\<lparr>impactScore := math_round score\<rparr>
      in (this', impactScore this'))"

text \<open>The claim's words: a metric value that is not negative.\<close>

fun nonNegative :: "number \<Rightarrow> bool" where
  "nonNegative (Fin a) = (0 \<le> a)"
| "nonNegative PosInf = True"
| "nonNegative x = False"

record eventMetrics =
  totalAttendees :: nat
  engagementRate :: number

record event = rated +
  event_id :: objectId
  organizer :: objectId
  attendees :: "objectId list"
  likes :: "objectId list"
  capacity :: rat
  eventMetrics :: eventMetrics

text \<open>
  The rating part of both \<^verbatim>\<open>pre('save')\<close> hooks, the same text in the two files:
  \<^verbatim>\<open>reduce((sum, feedback) => sum + feedback.rating, 0)\<close> is a left fold of double
  additions, the average is the double quotient of that total by the length, and nothing is
  written when the list is empty.
\<close>

definition recomputeRating :: "'a rated_scheme \<Rightarrow> 'a rated_scheme" where
  "recomputeRating this =
     (if 0 < length (feedback this) then
        (let totalRating = foldl (\<lambda>sum f. num_add sum (rating f)) (Fin 0) (feedback this)
         in this\<lparr>averageRating := num_div_pos totalRating (of_nat (length (feedback this))),
                 totalRatings := length (feedback this)\<rparr>)
      else this)"

definition initiative_pre_save :: "initiative \<Rightarrow> initiative" where
  "initiative_pre_save this = recomputeRating this"

text \<open>\<^verbatim>\<open>(this.likes.length / this.attendees.length) * 100\<close>, in double arithmetic.\<close>

definition event_pre_save :: "event \<Rightarrow> event" where
  "event_pre_save this =
     (let this1 = recomputeRating this
      in if 0 < length (attendees this1) then
           this1\<lparr>eventMetrics := (eventMetrics this1)
             \<lparr>engagementRate :=
                num_mul_pos
                  (num_div_pos (Fin (of_nat (length (likes this1))))
                     (of_nat (length (attendees this1))))
                  100\<rparr>\<rparr>
         else this1)"

text \<open>
  \<^verbatim>\<open>this.feedback.filter(f => f.user.toString() !== userId.toString())\<close>. The schema does not
  require \<^verbatim>\<open>user\<close> on a feedback entry; on an entry without one, \<^verbatim>\<open>f.user.toString()\<close>
  throws a TypeError and the method stops there.
\<close>

fun feedbackOfOthers :: "objectId \<Rightarrow> feedbackEntry list \<Rightarrow> exn + feedbackEntry list" where
  "feedbackOfOthers userId [] = Inr []"
| "feedbackOfOthers userId (f # fs) =
     (case user f of
        None \<Rightarrow> Inl TypeError
      | Some u \<Rightarrow>
          (case feedbackOfOthers userId fs of
             Inl e \<Rightarrow> Inl e
           | Inr kept \<Rightarrow> Inr (if u \<noteq> userId then f # kept else kept)))"

text \<open>
  The entry that \<^verbatim>\<open>addFeedback\<close> pushes; \<^verbatim>\<open>createdAt\<close> takes its schema default, the
  current time.
\<close>

definition newFeedback :: "date \<Rightarrow> objectId \<Rightarrow> number \<Rightarrow> string option \<Rightarrow> feedbackEntry" where
  "newFeedback now userId rtg cmt =
     \<lparr>createdAt = now, user = Some userId, rating = rtg, comment = cmt\<rparr>"

text \<open>
  What the schema asks of a feedback entry when the document is validated: a rating from 1
  to 5 and a comment of at most 500 characters.
\<close>

definition feedbackValid :: "feedbackEntry \<Rightarrow> bool" where
  "feedbackValid f \<longleftrightarrow>
     (case rating f of Fin r \<Rightarrow> 1 \<le> r \<and> r \<le> 5 | _ \<Rightarrow> False)
     \<and> (case comment f of None \<Rightarrow> True | Some c \<Rightarrow> length c \<le> 500)"

text \<open>
  \<^verbatim>\<open>addFeedback\<close> ends in \<^verbatim>\<open>this.save()\<close>, which validates the document before the
  \<^verbatim>\<open>pre('save')\<close> hook runs and rejects with a ValidationError, storing nothing, when a
  validator fails. The rating argument may be absent, and the path is required. \<open>restValid\<close>
  is the verdict of the validators on the paths other than the feedback entries.
\<close>

definition initiative_addFeedback ::
  "bool \<Rightarrow> date \<Rightarrow> initiative \<Rightarrow> objectId \<Rightarrow> number option \<Rightarrow> string option
    \<Rightarrow> exn + initiative" where
  "initiative_addFeedback restValid now this userId rtg cmt =
     (case feedbackOfOthers userId (feedback this) of
        Inl e \<Rightarrow> Inl e
      | Inr kept \<Rightarrow>
          (case rtg of
             None \<Rightarrow> Inl ValidationError
           | Some r \<Rightarrow>
               (let this' = this\<lparr>feedback := kept @ [newFeedback now userId r cmt]\<rparr>
                in if list_all feedbackValid (feedback this') \<and> restValid
                   then Inr (initiative_pre_save this')
                   else Inl ValidationError)))"

definition event_addFeedback ::
  "bool \<Rightarrow> date \<Rightarrow> event \<Rightarrow> objectId \<Rightarrow> number option \<Rightarrow> string option
    \<Rightarrow> exn + event" where
  "event_addFeedback restValid now this userId rtg cmt =
     (case feedbackOfOthers userId (feedback this) of
        Inl e \<Rightarrow> Inl e
      | Inr kept \<Rightarrow>
          (case rtg of
             None \<Rightarrow> Inl ValidationError
           | Some r \<Rightarrow>
               (let this' = this\<lparr>feedback := kept @ [newFeedback now userId r cmt]\<rparr>
                in if list_all feedbackValid (feedback this') \<and> restValid
                   then Inr (event_pre_save this')
                   else Inl ValidationError)))"




section \<open>middleware/auth.js\<close>

text \<open>
  \<^verbatim>\<open>String.prototype.replace\<close> with a string pattern rewrites the first occurrence only.
\<close>

fun js_replace :: "string \<Rightarrow> string \<Rightarrow> string \<Rightarrow> string" where
  "js_replace pat rep [] = (if pat = [] then rep else [])"
| "js_replace pat rep (c # cs) =
     (if prefix pat (c # cs) then rep @ drop (length pat) (c # cs)
      else c # js_replace pat rep cs)"

record request =
  authorization :: "string option"
  req_user :: "user option"

text \<open>
  \<^verbatim>\<open>jwt.verify(token, secret)\<close> belongs to a library: it is a parameter here, a function from
  the token to the decoded payload, with \<open>None\<close> where the library throws (bad signature,
  expired or malformed token).
\<close>

record jwtPayload =
  userId :: "string option"

type_synonym verifier = "string \<Rightarrow> jwtPayload option"

text \<open>\<^verbatim>\<open>req.header('Authorization')?.replace('Bearer ', '')\<close>\<close>

definition bearerToken :: "request \<Rightarrow> string option" where
  "bearerToken req = map_option (js_replace ''Bearer '' '''') (authorization req)"

text \<open>
  \<^verbatim>\<open>User.findById(decoded.userId)\<close>: null when the payload has no \<^verbatim>\<open>userId\<close>, a CastError
  when it is not an ObjectId string.
\<close>

definition findSubject :: "user list \<Rightarrow> jwtPayload \<Rightarrow> exn + user option" where
  "findSubject users decoded =
     (case userId decoded of
        None \<Rightarrow> Inr None
      | Some s \<Rightarrow> findById user_id users s)"

text \<open>
  The middleware in continuation-passing style, as written: \<open>next\<close> is the rest of the
  route. An empty token is falsy; everything thrown inside the \<^verbatim>\<open>try\<close> is answered by the
  \<^verbatim>\<open>catch\<close> with 401.
\<close>

definition auth :: "verifier \<Rightarrow> user list \<Rightarrow> request \<Rightarrow> (request \<Rightarrow> 'r reply) \<Rightarrow> 'r reply" where
  "auth verify users req next =
     (case bearerToken req of
        None \<Rightarrow> SentMessage 401 ''No token, authorization denied''
      | Some token \<Rightarrow>
          if token = [] then SentMessage 401 ''No token, authorization denied''
          else
            (case verify token of
               None \<Rightarrow> SentMessage 401 ''Token is not valid''
             | Some decoded \<Rightarrow>
                 (case findSubject users decoded of
                    Inl e \<Rightarrow> SentMessage 401 ''Token is not valid''
                  | Inr None \<Rightarrow> SentMessage 401 ''Token is not valid''
                  | Inr (Some u) \<Rightarrow> next (req\<lparr>req_user := Some u\<rparr>))))"

text \<open>
  The two wrappers pass \<^verbatim>\<open>auth\<close> a callback that compares \<^verbatim>\<open>req.user.role\<close>. The callback
  runs inside the \<^verbatim>\<open>try\<close> of \<^verbatim>\<open>auth\<close>, so reading the role of an absent user would end in
  that \<^verbatim>\<open>catch\<close>.
\<close>

definition adminAuth :: "verifier \<Rightarrow> user list \<Rightarrow> request \<Rightarrow> (request \<Rightarrow> 'r reply) \<Rightarrow> 'r reply" where
  "adminAuth verify users req next =
     auth verify users req
       (\<lambda>req'. case req_user req' of
                 None \<Rightarrow> SentMessage 401 ''Token is not valid''
               | Some u \<Rightarrow>
                   if role u \<noteq> ''admin'' then SentMessage 403 ''Access denied. Admin only.''
                   else next req')"

definition moderatorAuth :: "verifier \<Rightarrow> user list \<Rightarrow> request \<Rightarrow> (request \<Rightarrow> 'r reply) \<Rightarrow> 'r reply" where
  "moderatorAuth verify users req next =
     auth verify users req
       (\<lambda>req'. case req_user req' of
                 None \<Rightarrow> SentMessage 401 ''Token is not valid''
               | Some u \<Rightarrow>
                   if role u \<noteq> ''admin'' \<and> role u \<noteq> ''moderator''
                   then SentMessage 403 ''Access denied. Moderator or admin only.''
                   else next req')"

section \<open>routes/initiatives.js\<close>

text \<open>
  A handler takes the collection, the user that \<^verbatim>\<open>auth\<close> resolved, the \<^verbatim>\<open>:id\<close> parameter
  and its body, and gives the reply together with the collection it leaves.
  \<^verbatim>\<open>populate\<close> only decorates the reply and is left out.

  \<^verbatim>\<open>PUT /:id\<close>. The body is the effect of \<^verbatim>\<open>{ $set: req.body }\<close> on the stored document.
  The \<^verbatim>\<open>catch\<close> answers a CastError of kind ObjectId with 404 and anything else with 500.
\<close>

definition initiatives_put ::
  "initiative list \<Rightarrow> user \<Rightarrow> string \<Rightarrow> (initiative \<Rightarrow> initiative)
    \<Rightarrow> initiative reply \<times> initiative list" where
  "initiatives_put db reqUser paramId body =
     (case findById initiative_id db paramId of
        Inl e \<Rightarrow>
          (if e = CastError then SentMessage 404 ''Initiative not found''
           else SentText 500 ''Server error'', db)
      | Inr None \<Rightarrow> (SentMessage 404 ''Initiative not found'', db)
      | Inr (Some initiative) \<Rightarrow>
          if creator initiative \<noteq> user_id reqUser \<and> role reqUser \<noteq> ''admin''
          then (SentMessage 401 ''Not authorized'', db)
          else
            (let updatedInitiative = body initiative
             in (Sent updatedInitiative,
                 map (\<lambda>x. if initiative_id x = initiative_id initiative
                           then updatedInitiative else x) db)))"

text \<open>\<^verbatim>\<open>DELETE /:id\<close>\<close>

definition initiatives_delete ::
  "initiative list \<Rightarrow> user \<Rightarrow> string \<Rightarrow> initiative reply \<times> initiative list" where
  "initiatives_delete db reqUser paramId =
     (case findById initiative_id db paramId of
        Inl e \<Rightarrow>
          (if e = CastError then SentMessage 404 ''Initiative not found''
           else SentText 500 ''Server error'', db)
      | Inr None \<Rightarrow> (SentMessage 404 ''Initiative not found'', db)
      | Inr (Some initiative) \<Rightarrow>
          if creator initiative \<noteq> user_id reqUser \<and> role reqUser \<noteq> ''admin''
          then (SentMessage 401 ''Not authorized'', db)
          else (SentMessage 200 ''Initiative removed'', removeDoc initiative_id db initiative))"

text \<open>
  \<^verbatim>\<open>POST /:id/join\<close>. The schema declares \<^verbatim>\<open>members\<close> as an array of ObjectIds, and the
  create route pushes the plain \<^verbatim>\<open>req.user.id\<close>. The join route treats an element as an
  object with a \<^verbatim>\<open>user\<close> property, and pushes such an object. The two shapes:
\<close>

datatype memberArg = PlainId objectId | UserRole objectId string

text \<open>\<^verbatim>\<open>member.user\<close>: an ObjectId has no such property.\<close>

fun member_user :: "memberArg \<Rightarrow> objectId option" where
  "member_user (PlainId i) = None"
| "member_user (UserRole u r) = Some u"

text \<open>
  \<^verbatim>\<open>members.find(member => member.user.toString() === req.user.id)\<close>: \<^verbatim>\<open>toString\<close> of an
  undefined \<^verbatim>\<open>user\<close> throws a TypeError at the first element it meets.
\<close>

fun findMember :: "objectId \<Rightarrow> memberArg list \<Rightarrow> exn + memberArg option" where
  "findMember uid [] = Inr None"
| "findMember uid (member # rest) =
     (case member_user member of
        None \<Rightarrow> Inl TypeError
      | Some u \<Rightarrow> if u = uid then Inr (Some member) else findMember uid rest)"

text \<open>
  What \<^verbatim>\<open>members.push(value)\<close> stores: Mongoose casts the value to the element type. An
  object without \<^verbatim>\<open>_id\<close> is cast through its string form, \<^verbatim>\<open>[object Object]\<close>.
\<close>

fun castMember :: "memberArg \<Rightarrow> exn + objectId" where
  "castMember (PlainId i) = castObjectId i"
| "castMember (UserRole u r) = castObjectId ''[object Object]''"

text \<open>
  The handler. Its \<^verbatim>\<open>catch\<close> answers every exception with 500. The second argument of
  \<open>UserRole\<close> is \<^verbatim>\<open>req.body.role || 'member'\<close>.
\<close>

definition initiatives_join ::
  "initiative list \<Rightarrow> user \<Rightarrow> string \<Rightarrow> string option
    \<Rightarrow> initiative reply \<times> initiative list" where
  "initiatives_join db reqUser paramId bodyRole =
     (case findById initiative_id db paramId of
        Inl e \<Rightarrow> (SentText 500 ''Server error'', db)
      | Inr None \<Rightarrow> (SentMessage 404 ''Initiative not found'', db)
      | Inr (Some initiative) \<Rightarrow>
          (case findMember (user_id reqUser) (map PlainId (members initiative)) of
             Inl e \<Rightarrow> (SentText 500 ''Server error'', db)
           | Inr (Some isMember) \<Rightarrow>
               (SentMessage 400 ''Already a member of this initiative'', db)
           | Inr None \<Rightarrow>
               (case castMember
                       (UserRole (user_id reqUser)
                          (case bodyRole of None \<Rightarrow> ''member''
                           | Some r \<Rightarrow> if r = [] then ''member'' else r)) of
                  Inl e \<Rightarrow> (SentText 500 ''Server error'', db)
                | Inr m \<Rightarrow>
                    (let initiative' =
                           initiative_pre_save (initiative\<lparr>members := members initiative @ [m]\<rparr>)
                     in (Sent initiative', saveDoc initiative_id db initiative')))))"

section \<open>routes/events.js\<close>

text \<open>\<^verbatim>\<open>PUT /:id\<close> and \<^verbatim>\<open>DELETE /:id\<close>, as for initiatives, with the organizer as owner.\<close>

definition events_put ::
  "event list \<Rightarrow> user \<Rightarrow> string \<Rightarrow> (event \<Rightarrow> event) \<Rightarrow> event reply \<times> event list" where
  "events_put db reqUser paramId body =
     (case findById event_id db paramId of
        Inl e \<Rightarrow>
          (if e = CastError then SentMessage 404 ''Event not found''
           else SentText 500 ''Server error'', db)
      | Inr None \<Rightarrow> (SentMessage 404 ''Event not found'', db)
      | Inr (Some event) \<Rightarrow>
          if organizer event \<noteq> user_id reqUser \<and> role reqUser \<noteq> ''admin''
          then (SentMessage 401 ''Not authorized'', db)
          else
            (let updatedEvent = body event
             in (Sent updatedEvent,
                 map (\<lambda>x. if event_id x = event_id event then updatedEvent else x) db)))"

definition events_delete ::
  "event list \<Rightarrow> user \<Rightarrow> string \<Rightarrow> event reply \<times> event list" where
  "events_delete db reqUser paramId =
     (case findById event_id db paramId of
        Inl e \<Rightarrow>
          (if e = CastError then SentMessage 404 ''Event not found''
           else SentText 500 ''Server error'', db)
      | Inr None \<Rightarrow> (SentMessage 404 ''Event not found'', db)
      | Inr (Some event) \<Rightarrow>
          if organizer event \<noteq> user_id reqUser \<and> role reqUser \<noteq> ''admin''
          then (SentMessage 401 ''Not authorized'', db)
          else (SentMessage 200 ''Event removed'', removeDoc event_id db event))"

text \<open>
  \<^verbatim>\<open>POST /:id/attend\<close> reads \<^verbatim>\<open>event.maxAttendees\<close>. A document exposes the paths its
  schema declares, and reading any other property of it gives \<^verbatim>\<open>undefined\<close>. Of the Number
  paths of \<^verbatim>\<open>eventSchema\<close> this model keeps \<^verbatim>\<open>capacity\<close> ("0 means unlimited"),
  \<^verbatim>\<open>averageRating\<close> and \<^verbatim>\<open>totalRatings\<close>; the schema has no path \<^verbatim>\<open>maxAttendees\<close>, and in
  strict mode the value sent under that name at creation is not stored.
\<close>

definition event_number :: "event \<Rightarrow> string \<Rightarrow> number option" where
  "event_number e path =
     (if path = ''capacity'' then Some (Fin (capacity e))
      else if path = ''averageRating'' then Some (averageRating e)
      else if path = ''totalRatings'' then Some (Fin (of_nat (totalRatings e)))
      else None)"

text \<open>
  \<^verbatim>\<open>event.maxAttendees && event.attendees.length >= event.maxAttendees\<close>: \<^verbatim>\<open>undefined\<close>
  and 0 are falsy.
\<close>

definition eventIsFull :: "event \<Rightarrow> bool" where
  "eventIsFull e =
     (case event_number e ''maxAttendees'' of
        None \<Rightarrow> False
      | Some maxAttendees \<Rightarrow>
          truthy maxAttendees \<and> num_le maxAttendees (Fin (of_nat (length (attendees e)))))"

definition events_attend ::
  "event list \<Rightarrow> user \<Rightarrow> string \<Rightarrow> event reply \<times> event list" where
  "events_attend db reqUser paramId =
     (case findById event_id db paramId of
        Inl e \<Rightarrow> (SentText 500 ''Server error'', db)
      | Inr None \<Rightarrow> (SentMessage 404 ''Event not found'', db)
      | Inr (Some event) \<Rightarrow>
          (let attendeeIndex = findIndex (\<lambda>attendee. attendee = user_id reqUser) (attendees event)
           in if attendeeIndex > - 1
              then (SentMessage 400 ''Already attending this event'', db)
              else if eventIsFull event then (SentMessage 400 ''Event is full'', db)
              else
                (let event' =
                       event_pre_save (event\<lparr>attendees := attendees event @ [user_id reqUser]\<rparr>)
                 in (Sent event', saveDoc event_id db event'))))"

section \<open>models/Message.js, models/Notification.js\<close>

text \<open>
  The paths the two schemas share under the same names: the recipient and the read state.
\<close>

record inboxItem = timestamped +
  recipient :: objectId
  isRead :: bool
  readAt :: "date option"

record message = inboxItem +
  message_id :: objectId
  sender :: objectId
  subject :: string
  content :: string
  messageType :: string
  priority :: string
  initiativeRef :: "objectId option"
  eventRef :: "objectId option"

record notification = inboxItem +
  notification_id :: objectId

text \<open>\<^verbatim>\<open>.sort({ createdAt: -1 })\<close>\<close>

definition sortNewestFirst :: "('a timestamped_scheme) list \<Rightarrow> ('a timestamped_scheme) list" where
  "sortNewestFirst xs = rev (sort_key createdAt xs)"

section \<open>Listing with page and limit\<close>

text \<open>
  The cursor, as the MongoDB driver treats it: the skip is applied before the limit whatever
  the order of the two calls; a negative skip fails the query; a limit of 0 is no limit and a
  negative limit stands for its absolute value.
\<close>

definition cursor_skip :: "int \<Rightarrow> 'a list \<Rightarrow> exn + 'a list" where
  "cursor_skip n xs = (if n < 0 then Inl MongoError else Inr (drop (nat n) xs))"

definition cursor_limit :: "int \<Rightarrow> 'a list \<Rightarrow> 'a list" where
  "cursor_limit n xs = (if n = 0 then xs else take (nat \<bar>n\<bar>) xs)"

text \<open>
  The body of a listing reply. The source names the list after the route (\<^verbatim>\<open>initiatives\<close>,
  \<^verbatim>\<open>events\<close>, \<^verbatim>\<open>messages\<close>, \<^verbatim>\<open>users\<close>). \<^verbatim>\<open>Math.ceil(total / limit)\<close> is not a finite number when
  the limit is 0, and JSON writes it as null.
\<close>

record 'a page =
  docs :: "'a list"
  totalPages :: "int option"
  currentPage :: int
  total :: nat

text \<open>
  \<^verbatim>\<open>find(query).sort(...).limit(limit * 1).skip((page - 1) * limit)\<close>, then
  \<^verbatim>\<open>countDocuments(query)\<close> and the reply, on the matching documents in sorted order. The two
  query parameters are read as integers.
\<close>

definition listPage :: "'a list \<Rightarrow> int \<Rightarrow> int \<Rightarrow> exn + 'a page" where
  "listPage matching pageNo limitNo =
     (case cursor_skip ((pageNo - 1) * limitNo) matching of
        Inl e \<Rightarrow> Inl e
      | Inr rest \<Rightarrow>
          Inr \<lparr>docs = cursor_limit (limitNo * 1) rest,
               totalPages =
                 (if limitNo = 0 then None
                  else Some \<lceil>(of_nat (length matching) :: rat) / of_int limitNo\<rceil>),
               currentPage = pageNo,
               total = length matching\<rparr>)"

text \<open>
  \<^verbatim>\<open>GET /api/initiatives\<close>, with \<^verbatim>\<open>page = 1, limit = 10\<close> as defaults. \<open>found\<close> stands for the
  public initiatives that pass the category, location, status and text filters, newest
  first: that matching is the database's.
\<close>

definition initiatives_list ::
  "initiative list \<Rightarrow> int option \<Rightarrow> int option \<Rightarrow> initiative page reply" where
  "initiatives_list found pageParam limitParam =
     (let pageNo = (case pageParam of None \<Rightarrow> 1 | Some p \<Rightarrow> p);
          limitNo = (case limitParam of None \<Rightarrow> 10 | Some l \<Rightarrow> l)
      in case listPage found pageNo limitNo of
           Inl e \<Rightarrow> SentText 500 ''Server error''
         | Inr p \<Rightarrow> Sent p)"

section \<open>routes/messages.js\<close>

text \<open>\<^verbatim>\<open>GET /api/messages\<close>, with \<^verbatim>\<open>page = 1, limit = 20, unreadOnly = false\<close> as defaults.\<close>

definition inboxQuery :: "user \<Rightarrow> string option \<Rightarrow> message \<Rightarrow> bool" where
  "inboxQuery reqUser unreadOnly m =
     (recipient m = user_id reqUser \<and> (if unreadOnly = Some ''true'' then \<not> isRead m else True))"

definition messages_inbox ::
  "message list \<Rightarrow> user \<Rightarrow> int option \<Rightarrow> int option \<Rightarrow> string option \<Rightarrow> message page reply" where
  "messages_inbox db reqUser pageParam limitParam unreadOnly =
     (let pageNo = (case pageParam of None \<Rightarrow> 1 | Some p \<Rightarrow> p);
          limitNo = (case limitParam of None \<Rightarrow> 20 | Some l \<Rightarrow> l)
      in case listPage (sortNewestFirst (filter (inboxQuery reqUser unreadOnly) db)) pageNo limitNo of
           Inl e \<Rightarrow> SentMessage 500 ''Server error''
         | Inr p \<Rightarrow> Sent p)"

text \<open>\<^verbatim>\<open>populate('sender')\<close> and \<^verbatim>\<open>populate('recipient')\<close>: the user document, or null.\<close>

definition populateUser :: "user list \<Rightarrow> objectId \<Rightarrow> user option" where
  "populateUser users i = find (\<lambda>u. user_id u = i) users"

text \<open>
  \<^verbatim>\<open>GET /api/messages/:id\<close>. Both conditions read \<^verbatim>\<open>_id\<close> of the populated sender or
  recipient; whichever of the two is null, one of the reads throws and the \<^verbatim>\<open>catch\<close>
  answers 500. \<open>now\<close> is \<^verbatim>\<open>new Date()\<close>.
\<close>

definition messages_getById ::
  "user list \<Rightarrow> message list \<Rightarrow> user \<Rightarrow> string \<Rightarrow> date \<Rightarrow> message reply \<times> message list" where
  "messages_getById users db reqUser paramId now =
     (case findById message_id db paramId of
        Inl e \<Rightarrow> (SentMessage 500 ''Server error'', db)
      | Inr None \<Rightarrow> (SentMessage 404 ''Message not found'', db)
      | Inr (Some message) \<Rightarrow>
          (case (populateUser users (sender message), populateUser users (recipient message)) of
             (Some s, Some r) \<Rightarrow>
               if user_id s \<noteq> user_id reqUser \<and> user_id r \<noteq> user_id reqUser
               then (SentMessage 403 ''Access denied'', db)
               else if user_id r = user_id reqUser \<and> \<not> isRead message
               then (let message' = message\<lparr>isRead := True, readAt := Some now\<rparr>
                     in (Sent message', saveDoc message_id db message'))
               else (Sent message, db)
           | _ \<Rightarrow> (SentMessage 500 ''Server error'', db)))"

text \<open>\<^verbatim>\<open>PUT /api/messages/:id/read\<close>\<close>

definition messages_markRead ::
  "message list \<Rightarrow> user \<Rightarrow> string \<Rightarrow> date \<Rightarrow> message reply \<times> message list" where
  "messages_markRead db reqUser paramId now =
     (case findById message_id db paramId of
        Inl e \<Rightarrow> (SentMessage 500 ''Server error'', db)
      | Inr None \<Rightarrow> (SentMessage 404 ''Message not found'', db)
      | Inr (Some message) \<Rightarrow>
          if recipient message \<noteq> user_id reqUser
          then (SentMessage 403 ''Access denied'', db)
          else (let message' = message\<lparr>isRead := True, readAt := Some now\<rparr>
                in (Sent message', saveDoc message_id db message')))"

text \<open>
  \<^verbatim>\<open>POST /api/messages\<close>. The body, with its fields as strings; the last four are optional.
\<close>

record messageBody =
  body_recipient :: string
  body_subject :: string
  body_content :: string
  body_messageType :: "string option"
  body_priority :: "string option"
  body_initiative :: "string option"
  body_event :: "string option"

text \<open>\<^verbatim>\<open>isMongoId\<close>: 24 hexadecimal digits, in either case.\<close>

definition isMongoId :: "string \<Rightarrow> bool" where
  "isMongoId s \<longleftrightarrow> length s = 24 \<and> list_all isHexDigit s"

definition validationErrors :: "messageBody \<Rightarrow> string list" where
  "validationErrors b =
     (if isMongoId (body_recipient b) then [] else [''Valid recipient ID is required''])
     @ (if 1 \<le> length (body_subject b) \<and> length (body_subject b) \<le> 100 then []
        else [''Subject is required (max 100 chars)''])
     @ (if 1 \<le> length (body_content b) \<and> length (body_content b) \<le> 2000 then []
        else [''Content is required (max 2000 chars)''])
     @ (case body_messageType b of
          None \<Rightarrow> []
        | Some t \<Rightarrow>
            if t \<in> set [''personal'', ''initiative'', ''event'', ''system''] then []
            else [''Valid message type is required''])
     @ (case body_priority b of
          None \<Rightarrow> []
        | Some p \<Rightarrow>
            if p \<in> set [''low'', ''normal'', ''high'', ''urgent''] then []
            else [''Valid priority is required''])"

text \<open>\<^verbatim>\<open>String.prototype.trim\<close>, on the ASCII white space.\<close>

definition isSpace :: "char \<Rightarrow> bool" where
  "isSpace c \<longleftrightarrow> c \<in> set [CHR '' '', CHR 0x09, CHR 0x0A, CHR 0x0B, CHR 0x0C, CHR 0x0D]"

definition js_trim :: "string \<Rightarrow> string" where
  "js_trim s = rev (dropWhile isSpace (rev (dropWhile isSpace s)))"

definition castOptionalId :: "string option \<Rightarrow> exn + objectId option" where
  "castOptionalId v =
     (case v of
        None \<Rightarrow> Inr None
      | Some s \<Rightarrow> (case castObjectId s of Inl e \<Rightarrow> Inl e | Inr i \<Rightarrow> Inr (Some i)))"

text \<open>
  \<^verbatim>\<open>new Message({...})\<close> followed by \<^verbatim>\<open>save()\<close>: the references are cast to ObjectIds, the
  subject is trimmed, and the required strings must not be empty. \<open>newId\<close> is the \<^verbatim>\<open>_id\<close>
  the new document is given.
\<close>

definition newMessage :: "objectId \<Rightarrow> date \<Rightarrow> user \<Rightarrow> messageBody \<Rightarrow> exn + message" where
  "newMessage newId now reqUser b =
     (case castObjectId (body_recipient b) of
        Inl e \<Rightarrow> Inl e
      | Inr r \<Rightarrow>
          (case castOptionalId (body_initiative b) of
             Inl e \<Rightarrow> Inl e
           | Inr i \<Rightarrow>
               (case castOptionalId (body_event b) of
                  Inl e \<Rightarrow> Inl e
                | Inr ev \<Rightarrow>
                    if js_trim (body_subject b) = [] \<or> body_content b = []
                    then Inl ValidationError
                    else Inr \<lparr>createdAt = now, recipient = r, isRead = False, readAt = None,
                          message_id = newId, sender = user_id reqUser,
                          subject = js_trim (body_subject b), content = body_content b,
                          messageType =
                            (case body_messageType b of None \<Rightarrow> ''personal''
                             | Some t \<Rightarrow> if t = [] then ''personal'' else t),
                          priority =
                            (case body_priority b of None \<Rightarrow> ''normal''
                             | Some p \<Rightarrow> if p = [] then ''normal'' else p),
                          initiativeRef = i, eventRef = ev\<rparr>)))"

text \<open>
  The handler: validation, then the recipient's existence, then the comparison
  \<^verbatim>\<open>recipient === req.user.id\<close> of the string in the body with the sender's canonical id.
\<close>

definition messages_post ::
  "user list \<Rightarrow> message list \<Rightarrow> user \<Rightarrow> objectId \<Rightarrow> date \<Rightarrow> messageBody
    \<Rightarrow> message reply \<times> message list" where
  "messages_post users db reqUser newId now b =
     (if validationErrors b \<noteq> [] then (SentErrors 400 (validationErrors b), db)
      else
        (case findById user_id users (body_recipient b) of
           Inl e \<Rightarrow> (SentMessage 500 ''Server error'', db)
         | Inr None \<Rightarrow> (SentMessage 404 ''Recipient not found'', db)
         | Inr (Some recipientExists) \<Rightarrow>
             if body_recipient b = user_id reqUser
             then (SentMessage 400 ''Cannot send message to yourself'', db)
             else
               (case newMessage newId now reqUser b of
                  Inl e \<Rightarrow> (SentMessage 500 ''Server error'', db)
                | Inr message \<Rightarrow> (Sent message, db @ [message]))))"

section \<open>routes/notifications.js\<close>

text \<open>
  The top-level paths that \<^verbatim>\<open>notificationSchema\<close> declares, with \<^verbatim>\<open>_id\<close> and the two
  timestamps. The user a notification belongs to is stored under \<^verbatim>\<open>recipient\<close>; there is
  no path \<^verbatim>\<open>user\<close>.
\<close>

definition notification_paths :: "string list" where
  "notification_paths =
     [''_id'', ''recipient'', ''sender'', ''type'', ''title'', ''message'', ''data'', ''isRead'',
      ''readAt'', ''priority'', ''expiresAt'', ''createdAt'', ''updatedAt'']"

text \<open>
  Reading an ObjectId-valued property of a loaded notification, by name. The router reads
  \<^verbatim>\<open>notification.user\<close>; a property that the schema does not declare is \<^verbatim>\<open>undefined\<close>. Of the
  declared references this model keeps \<^verbatim>\<open>_id\<close> and \<^verbatim>\<open>recipient\<close>.
\<close>

definition notification_ref :: "notification \<Rightarrow> string \<Rightarrow> objectId option" where
  "notification_ref n path =
     (if path = ''_id'' then Some (notification_id n)
      else if path = ''recipient'' then Some (recipient n)
      else None)"

text \<open>
  A query filter is a list of conditions, each on one path. For a path outside the schema,
  Mongoose either removes the condition before the query is sent (\<^verbatim>\<open>strictQuery\<close> on, the
  default of Mongoose 6) or sends it as it is (\<^verbatim>\<open>strictQuery\<close> off, the default of Mongoose 5
  and 7), and then no stored notification has the field.
\<close>

datatype cond = IdIs string objectId | FlagIs string bool

fun notification_matches :: "bool \<Rightarrow> notification \<Rightarrow> cond \<Rightarrow> bool" where
  "notification_matches strictQuery n (IdIs path v) =
     (if path \<in> set notification_paths then notification_ref n path = Some v else strictQuery)"
| "notification_matches strictQuery n (FlagIs path b) =
     (if path = ''isRead'' then isRead n = b
      else if path \<in> set notification_paths then False
      else strictQuery)"

definition notification_find :: "bool \<Rightarrow> notification list \<Rightarrow> cond list \<Rightarrow> notification list" where
  "notification_find strictQuery db query =
     filter (\<lambda>n. list_all (notification_matches strictQuery n) query) db"

text \<open>\<^verbatim>\<open>GET /api/notifications\<close>: \<^verbatim>\<open>Notification.find({ user: req.user.id })\<close>, newest first.\<close>

definition notifications_list ::
  "bool \<Rightarrow> notification list \<Rightarrow> user \<Rightarrow> notification list reply" where
  "notifications_list strictQuery db reqUser =
     Sent (sortNewestFirst (notification_find strictQuery db [IdIs ''user'' (user_id reqUser)]))"

text \<open>\<^verbatim>\<open>GET /api/notifications/unread/count\<close>\<close>

definition notifications_unreadCount ::
  "bool \<Rightarrow> notification list \<Rightarrow> user \<Rightarrow> nat reply" where
  "notifications_unreadCount strictQuery db reqUser =
     Sent (length (notification_find strictQuery db
                     [IdIs ''user'' (user_id reqUser), FlagIs ''isRead'' False]))"

text \<open>
  The guard shared by the three routes on one notification:
  \<^verbatim>\<open>!notification || notification.user.toString() !== req.user.id\<close>. \<^verbatim>\<open>toString\<close> of an
  undefined \<^verbatim>\<open>user\<close> throws, and each \<^verbatim>\<open>catch\<close> answers 500.
\<close>

definition notification_owned :: "notification \<Rightarrow> user \<Rightarrow> exn + bool" where
  "notification_owned n reqUser =
     (case notification_ref n ''user'' of
        None \<Rightarrow> Inl TypeError
      | Some u \<Rightarrow> Inr (u = user_id reqUser))"

text \<open>\<^verbatim>\<open>GET /api/notifications/:id\<close>\<close>

definition notifications_getById ::
  "notification list \<Rightarrow> user \<Rightarrow> string \<Rightarrow> notification reply \<times> notification list" where
  "notifications_getById db reqUser paramId =
     (case findById notification_id db paramId of
        Inl e \<Rightarrow> (SentMessage 500 ''Server error'', db)
      | Inr None \<Rightarrow> (SentMessage 404 ''Notification not found'', db)
      | Inr (Some notification) \<Rightarrow>
          (case notification_owned notification reqUser of
             Inl e \<Rightarrow> (SentMessage 500 ''Server error'', db)
           | Inr False \<Rightarrow> (SentMessage 404 ''Notification not found'', db)
           | Inr True \<Rightarrow> (Sent notification, db)))"

text \<open>\<^verbatim>\<open>PUT /api/notifications/:id/read\<close>\<close>

definition notifications_markRead ::
  "notification list \<Rightarrow> user \<Rightarrow> string \<Rightarrow> notification reply \<times> notification list" where
  "notifications_markRead db reqUser paramId =
     (case findById notification_id db paramId of
        Inl e \<Rightarrow> (SentMessage 500 ''Server error'', db)
      | Inr None \<Rightarrow> (SentMessage 404 ''Notification not found'', db)
      | Inr (Some notification) \<Rightarrow>
          (case notification_owned notification reqUser of
             Inl e \<Rightarrow> (SentMessage 500 ''Server error'', db)
           | Inr False \<Rightarrow> (SentMessage 404 ''Notification not found'', db)
           | Inr True \<Rightarrow>
               (let notification' = notification\<lparr>isRead := True\<rparr>
                in (Sent notification', saveDoc notification_id db notification'))))"

text \<open>\<^verbatim>\<open>DELETE /api/notifications/:id\<close>\<close>

definition notifications_delete ::
  "notification list \<Rightarrow> user \<Rightarrow> string \<Rightarrow> notification reply \<times> notification list" where
  "notifications_delete db reqUser paramId =
     (case findById notification_id db paramId of
        Inl e \<Rightarrow> (SentMessage 500 ''Server error'', db)
      | Inr None \<Rightarrow> (SentMessage 404 ''Notification not found'', db)
      | Inr (Some notification) \<Rightarrow>
          (case notification_owned notification reqUser of
             Inl e \<Rightarrow> (SentMessage 500 ''Server error'', db)
           | Inr False \<Rightarrow> (SentMessage 404 ''Notification not found'', db)
           | Inr True \<Rightarrow>
               (SentMessage 200 ''Notification deleted'',
                removeDoc notification_id db notification)))"

text \<open>
  Sample documents. Two users have rated 4 and 5; the impact metrics give
  12.5 + 25 + 7.5 + 3 + 4.2 = 52.2 points before rounding.
\<close>

definition sampleFeedback :: "feedbackEntry list" where
  "sampleFeedback =
     [\<lparr>createdAt = 1000, user = Some ''64b7f1a2c3d4e5f6a7b8c9d1'', rating = Fin 4, comment = None\<rparr>,
      \<lparr>createdAt = 2000, user = Some ''64b7f1a2c3d4e5f6a7b8c9d2'', rating = Fin 5,
        comment = Some ''good''\<rparr>]"

definition sampleEvent :: event where
  "sampleEvent =
     \<lparr>feedback = sampleFeedback, averageRating = Fin (9 / 2), totalRatings = 2,
      event_id = ''64b7f1a2c3d4e5f6a7b8c9e0'', organizer = ''64b7f1a2c3d4e5f6a7b8c9d1'',
      attendees = [''64b7f1a2c3d4e5f6a7b8c9d1''], likes = [], capacity = 1,
      eventMetrics = \<lparr>totalAttendees = 0, engagementRate = Fin 0\<rparr>\<rparr>"

definition sampleInitiative :: initiative where
  "sampleInitiative =
     \<lparr>feedback = sampleFeedback, averageRating = Fin (9 / 2), totalRatings = 2,
      initiative_id = ''64b7f1a2c3d4e5f6a7b8c9d0'', creator = ''64b7f1a2c3d4e5f6a7b8c9d1'',
      members = [''64b7f1a2c3d4e5f6a7b8c9d1''], impactScore = Fin 0,
      impactMetrics = \<lparr>peopleReached = Fin 1250, hoursVolunteered = Fin 5000,
        fundsRaised = Fin 7500, environmentalImpact = Fin 3, socialConnections = Fin 42\<rparr>\<rparr>"



definition threesEvent :: event where
  "threesEvent =
     sampleEvent\<lparr>feedback :=
         [\<lparr>createdAt = 1000, user = Some ''64b7f1a2c3d4e5f6a7b8c9d1'', rating = Fin 3,
           comment = None\<rparr>,
          \<lparr>createdAt = 1500, user = Some ''64b7f1a2c3d4e5f6a7b8c9d2'', rating = Fin 3,
           comment = None\<rparr>,
          \<lparr>createdAt = 2000, user = Some ''64b7f1a2c3d4e5f6a7b8c9d3'', rating = Fin 3,
           comment = None\<rparr>],
       averageRating := Fin 3, totalRatings := 3\<rparr>"

text \<open>
  Two sets of impact metrics. The first gives the terms 0, 0.6, 0.7, 0 and 0.2, whose exact
  sum is 1.5 and whose double sum is 1.4999999999999998; the second gives 12.75, 25, 7.5, 3
  and 4.25, whose sum 52.5 is exact.
\<close>

definition lowMetrics :: impactMetrics where
  "lowMetrics =
     \<lparr>peopleReached = Fin 0, hoursVolunteered = Fin 60, fundsRaised = Fin 700,
      environmentalImpact = Fin 0, socialConnections = Fin 2\<rparr>"

definition halfwayMetrics :: impactMetrics where
  "halfwayMetrics =
     \<lparr>peopleReached = Fin 1275, hoursVolunteered = Fin 5000, fundsRaised = Fin 7500,
      environmentalImpact = Fin 3, socialConnections = Fin (85 / 2)\<rparr>"

text \<open>Three users: Alice created the sample initiative and event; Carol is an admin.\<close>

definition alice :: user where
  "alice = \<lparr>user_id = ''64b7f1a2c3d4e5f6a7b8c9d1'', role = ''user''\<rparr>"

definition bob :: user where
  "bob = \<lparr>user_id = ''64b7f1a2c3d4e5f6a7b8c9d2'', role = ''user''\<rparr>"

definition carol :: user where
  "carol = \<lparr>user_id = ''64b7f1a2c3d4e5f6a7b8c9d3'', role = ''admin''\<rparr>"

definition sampleUsers :: "user list" where
  "sampleUsers = [alice, bob, carol]"

text \<open>
  A stand-in for \<^verbatim>\<open>jwt.verify\<close>: three tokens decode, to Bob, to Carol and to a user that is
  not stored; every other token is refused.
\<close>

definition sampleVerify :: verifier where
  "sampleVerify token =
     (if token = ''bob.token'' then Some \<lparr>userId = Some ''64b7f1a2c3d4e5f6a7b8c9d2''\<rparr>
      else if token = ''carol.token'' then Some \<lparr>userId = Some ''64b7f1a2c3d4e5f6a7b8c9d3''\<rparr>
      else if token = ''ghost.token'' then Some \<lparr>userId = Some ''64b7f1a2c3d4e5f6a7b8c9ff''\<rparr>
      else None)"

text \<open>
  Four messages: Bob has received three (one already read at time 150), Alice one.
\<close>

definition sampleMessage :: "objectId \<Rightarrow> date \<Rightarrow> user \<Rightarrow> user \<Rightarrow> message" where
  "sampleMessage i t from to =
     \<lparr>createdAt = t, recipient = user_id to, isRead = False, readAt = None,
      message_id = i, sender = user_id from, subject = ''hello'', content = ''hi'',
      messageType = ''personal'', priority = ''normal'', initiativeRef = None,
      eventRef = None\<rparr>"

definition readMessage :: message where
  "readMessage =
     (sampleMessage ''64b7f1a2c3d4e5f6a7b8c9a1'' 100 alice bob)\<lparr>isRead := True, readAt := Some 150\<rparr>"

definition sampleMessages :: "message list" where
  "sampleMessages =
     [readMessage,
      sampleMessage ''64b7f1a2c3d4e5f6a7b8c9a2'' 200 carol bob,
      sampleMessage ''64b7f1a2c3d4e5f6a7b8c9a3'' 300 bob alice,
      sampleMessage ''64b7f1a2c3d4e5f6a7b8c9a4'' 400 alice bob]"

text \<open>Twenty-five initiatives that differ in their stored count.\<close>

definition numbered :: "nat \<Rightarrow> initiative" where
  "numbered n = sampleInitiative\<lparr>totalRatings := n\<rparr>"

text \<open>Two notifications, the older one for Bob and the newer one for Alice, both unread.\<close>

definition bobsNotification :: notification where
  "bobsNotification =
     \<lparr>createdAt = 100, recipient = user_id bob, isRead = False, readAt = None,
      notification_id = ''64b7f1a2c3d4e5f6a7b8c9b1''\<rparr>"

definition alicesNotification :: notification where
  "alicesNotification =
     \<lparr>createdAt = 200, recipient = user_id alice, isRead = False, readAt = None,
      notification_id = ''64b7f1a2c3d4e5f6a7b8c9b2''\<rparr>"

definition sampleNotifications :: "notification list" where
  "sampleNotifications = [bobsNotification, alicesNotification]"
section \<open>Facts about double rounding\<close>

text \<open>
  The recursive equations of the exponent search are unfolded on demand only.
\<close>

declare expo_up.simps [simp del] expo_down.simps [simp del]

lemma rne_of_int: "rne (of_int n) = n"
  by (simp add: rne_def)

lemma rne_range: "\<lfloor>q\<rfloor> \<le> rne q \<and> rne q \<le> \<lfloor>q\<rfloor> + 1"
  by (simp add: rne_def Let_def)

lemma rne_mono:
  assumes "x \<le> y"
  shows "rne x \<le> rne y"
proof (cases "\<lfloor>x\<rfloor> = \<lfloor>y\<rfloor>")
  case True
  have "x - of_int \<lfloor>x\<rfloor> \<le> y - of_int \<lfloor>y\<rfloor>" using assms True by simp
  then show ?thesis unfolding rne_def Let_def True by auto
next
  case False
  have "\<lfloor>x\<rfloor> \<le> \<lfloor>y\<rfloor>" using assms by (rule floor_mono)
  with False have "\<lfloor>x\<rfloor> + 1 \<le> \<lfloor>y\<rfloor>" by simp
  then show ?thesis using rne_range [of x] rne_range [of y] by linarith
qed

lemma rne_nonneg: "0 \<le> q \<Longrightarrow> 0 \<le> rne q"
  using rne_mono [of 0 q] by (simp add: rne_def)

lemma expo_up_le: "a < 2 ^ Suc j \<Longrightarrow> expo_up n a \<le> int j"
proof (induction n a arbitrary: j rule: expo_up.induct)
  case (1 n a)
  show ?case
  proof (cases "n = 0 \<or> a < 2")
    case True
    then show ?thesis by (subst expo_up.simps) simp
  next
    case False
    then have "2 \<le> a" by simp
    with "1.prems" have "j \<noteq> 0" by (cases j) auto
    then obtain k where j: "j = Suc k" by (cases j) auto
    have "a / 2 < 2 ^ Suc k" using "1.prems" by (simp add: j)
    then have "expo_up (n - 1) (a / 2) \<le> int k" using False by (intro "1.IH") simp_all
    then show ?thesis using False by (subst expo_up.simps) (simp add: j)
  qed
qed

lemma expo_down_le: "expo_down n a \<le> 0"
proof (induction n a rule: expo_down.induct)
  case (1 n a)
  show ?case
  proof (cases "n = 0 \<or> 1 \<le> a")
    case True
    then show ?thesis by (subst expo_down.simps) simp
  next
    case False
    then have "expo_down (n - 1) (2 * a) \<le> 0" by (intro "1.IH") simp_all
    then show ?thesis using False by (subst expo_down.simps) simp
  qed
qed

lemma binade_le_52: "a < 2 ^ 53 \<Longrightarrow> binade a \<le> 52"
  using expo_up_le [of a 52 1024] expo_down_le [of 1022 a] by (simp add: binade_def)

lemma round64_nonneg: "0 \<le> x \<Longrightarrow> 0 \<le> round64 x"
  by (auto simp: round64_def Let_def rne_nonneg intro!: mult_nonneg_nonneg)

lemma round64_grid:
  assumes "0 < x" "x < 2 ^ 53"
  obtains j where "round64 x = of_int (rne (x * 2 ^ j)) / 2 ^ j"
proof -
  define j where "j = nat (52 - binade x)"
  have "binade x - 52 = - int j" using binade_le_52 [OF assms(2)] by (simp add: j_def)
  then have "power_int (2::rat) (binade \<bar>x\<bar> - 52) = inverse (2 ^ j)"
    using assms(1) by (simp add: power_int_minus)
  then have "round64 x = of_int (rne (x * 2 ^ j)) / 2 ^ j"
    using assms(1) by (simp add: round64_def Let_def divide_inverse)
  then show ?thesis by (rule that)
qed

lemma round64_le_nat:
  assumes "0 \<le> x" "x \<le> of_nat K" "K < 2 ^ 53"
  shows "round64 x \<le> of_nat K"
proof (cases "x = 0")
  case True
  then show ?thesis by (simp add: round64_def)
next
  case False
  then have pos: "0 < x" using assms(1) by simp
  have "(of_nat K :: rat) < 2 ^ 53" using assms(3) by (metis of_nat_less_iff of_nat_numeral of_nat_power)
  then have "x < 2 ^ 53" using assms(2) by simp
  with pos obtain j where r: "round64 x = of_int (rne (x * 2 ^ j)) / 2 ^ j"
    by (rule round64_grid)
  have "x * 2 ^ j \<le> of_int (int K * 2 ^ j)" using assms(2) by simp
  then have "rne (x * 2 ^ j) \<le> rne (of_int (int K * 2 ^ j))" by (rule rne_mono)
  then have "rne (x * 2 ^ j) \<le> int K * 2 ^ j" by (simp only: rne_of_int)
  then have "(of_int (rne (x * 2 ^ j)) :: rat) \<le> of_int (int K * 2 ^ j)" by (simp only: of_int_le_iff)
  then have "(of_int (rne (x * 2 ^ j)) :: rat) / 2 ^ j \<le> of_nat K"
    by (simp add: divide_le_eq)
  then show ?thesis by (simp only: r)
qed

lemma round64_nat:
  assumes "K < 2 ^ 53"
  shows "round64 (of_nat K) = of_nat K"
proof (cases "K = 0")
  case True
  then show ?thesis by (simp add: round64_def)
next
  case False
  then have pos: "(0::rat) < of_nat K" by simp
  have "(of_nat K :: rat) < 2 ^ 53" using assms by (metis of_nat_less_iff of_nat_numeral of_nat_power)
  with pos obtain j where r: "round64 (of_nat K) = of_int (rne (of_nat K * 2 ^ j)) / 2 ^ j"
    by (rule round64_grid)
  have "(of_nat K :: rat) * 2 ^ j = of_int (int K * 2 ^ j)" by simp
  then have "rne (of_nat K * 2 ^ j) = int K * 2 ^ j" by (simp only: rne_of_int)
  then show ?thesis by (simp add: r)
qed

lemma fl_bounded:
  assumes "0 \<le> x" "x \<le> of_nat K" "K < 2 ^ 53"
  shows "\<exists>v. fl x = Fin v \<and> 0 \<le> v \<and> v \<le> of_nat K"
proof -
  have lo: "0 \<le> round64 x" using assms(1) by (rule round64_nonneg)
  have hi: "round64 x \<le> of_nat K" using assms by (rule round64_le_nat)
  have "(of_nat K :: rat) < 2 ^ 53" using assms(3) by (metis of_nat_less_iff of_nat_numeral of_nat_power)
  also have "(2::rat) ^ 53 < 2 ^ 1024" by (rule power_strict_increasing) simp_all
  finally have "round64 x < 2 ^ 1024" using hi by simp
  moreover have "- (2 ^ 1024) < round64 x"
  proof -
    have "(0::rat) < 2 ^ 1024" by simp
    then show ?thesis using lo by linarith
  qed
  ultimately have "fl x = Fin (round64 x)" by (simp add: fl_def Let_def)
  then show ?thesis using lo hi by simp
qed

lemma fl_nat: "K < 2 ^ 53 \<Longrightarrow> fl (of_nat K) = Fin (of_nat K)"
  using fl_bounded [of "of_nat K" K] by (auto simp: fl_def Let_def round64_nat split: if_splits)

lemma fl_nonneg: "0 \<le> x \<Longrightarrow> fl x = PosInf \<or> (\<exists>v. fl x = Fin v \<and> 0 \<le> v)"
  using round64_nonneg [of x] by (auto simp: fl_def Let_def)

lemma fl_zero: "fl 0 = Fin 0"
  by (simp add: fl_def round64_def)

lemma fl_numeral: "numeral k < (2::nat) ^ 53 \<Longrightarrow> fl (numeral k) = Fin (numeral k)"
  using fl_nat [of "numeral k"] by simp

text \<open>
  A concrete rounding is checked from its exponent \<open>e\<close> and its significand \<open>m\<close>: the scaled
  value lies strictly within a half of \<open>m\<close>.
\<close>

lemma rne_eqI:
  assumes "of_int m - 1 / 2 < q \<and> q < of_int m + 1 / 2
    \<or> even m \<and> (q = of_int m - 1 / 2 \<or> q = of_int m + 1 / 2)"
  shows "rne q = m"
proof -
  consider (near) "of_int m - 1 / 2 < q" "q < of_int m + 1 / 2"
    | (below) "even m" "q = of_int m - 1 / 2"
    | (above) "even m" "q = of_int m + 1 / 2"
    using assms by blast
  then show ?thesis
  proof cases
    case near
    show ?thesis
    proof (cases "of_int m \<le> q")
      case True
      then have "\<lfloor>q\<rfloor> = m" using near(2) by (intro floor_unique) simp_all
      then show ?thesis using near True by (simp add: rne_def Let_def)
    next
      case False
      then have "\<lfloor>q\<rfloor> = m - 1" using near(1) by (intro floor_unique) simp_all
      then show ?thesis using near False by (simp add: rne_def Let_def)
    qed
  next
    case below
    have "\<lfloor>q\<rfloor> = m - 1" unfolding below(2) by (intro floor_unique) simp_all
    then show ?thesis using below by (simp add: rne_def Let_def)
  next
    case above
    have "\<lfloor>q\<rfloor> = m" unfolding above(2) by (intro floor_unique) simp_all
    then show ?thesis using above by (simp add: rne_def Let_def)
  qed
qed

lemma fl_eqI:
  assumes "0 < x" "binade x = e"
    and "of_int m - 1 / 2 < x / power_int 2 (e - 52) \<and> x / power_int 2 (e - 52) < of_int m + 1 / 2
      \<or> even m \<and> (x / power_int 2 (e - 52) = of_int m - 1 / 2
                  \<or> x / power_int 2 (e - 52) = of_int m + 1 / 2)"
    and "of_int m * power_int 2 (e - 52) = v" "0 \<le> v" "v < 2 ^ 1024"
  shows "fl x = Fin v"
proof -
  have "rne (x / power_int 2 (e - 52)) = m" using assms(3) by (rule rne_eqI)
  then have "round64 x = v" using assms(1,2,4) by (simp add: round64_def Let_def)
  moreover have "- (2 ^ 1024) < v"
  proof -
    have "(0::rat) < 2 ^ 1024" by simp
    then show ?thesis using assms(5) by linarith
  qed
  ultimately show ?thesis using assms(6) by (simp add: fl_def Let_def)
qed

lemmas binade_eval = binade_def expo_up.simps expo_down.simps power_int_minus

lemma fl_samples:
  "fl (9 / 2) = Fin (9 / 2)"
  "fl (7 / 2) = Fin (7 / 2)"
  "fl (10 / 3) = Fin (7505999378950827 / 2251799813685248)"
    apply (rule fl_eqI [where e = 2 and m = 5066549580791808]; simp add: binade_eval)
   apply (rule fl_eqI [where e = 1 and m = 7881299347898368]; simp add: binade_eval)
  apply (rule fl_eqI [where e = 1 and m = 7505999378950827]; simp add: binade_eval)
  done


text \<open>The roundings met on the sample metrics.\<close>

lemma fl_step_1: "fl (60 / 100) = Fin (5404319552844595 / 9007199254740992)"
  by (rule fl_eqI [where e = "-1" and m = 5404319552844595]; simp add: binade_eval)

lemma fl_step_2: "fl (700 / 1000) = Fin (3152519739159347 / 4503599627370496)"
  by (rule fl_eqI [where e = "-1" and m = 6305039478318694]; simp add: binade_eval)

lemma fl_step_3: "fl (2 / 10) = Fin (3602879701896397 / 18014398509481984)"
  by (rule fl_eqI [where e = "-3" and m = 7205759403792794]; simp add: binade_eval)

lemma fl_step_4: "fl (0 + 5404319552844595 / 9007199254740992) = Fin (5404319552844595 / 9007199254740992)"
  by (rule fl_eqI [where e = "-1" and m = 5404319552844595]; simp add: binade_eval)

lemma fl_step_5: "fl (5404319552844595 / 9007199254740992 + 3152519739159347 / 4503599627370496) = Fin (1463669878895411 / 1125899906842624)"
  by (rule fl_eqI [where e = "0" and m = 5854679515581644]; simp add: binade_eval)

lemma fl_step_6: "fl (1463669878895411 / 1125899906842624 + 0) = Fin (1463669878895411 / 1125899906842624)"
  by (rule fl_eqI [where e = "0" and m = 5854679515581644]; simp add: binade_eval)

lemma fl_step_7: "fl (1463669878895411 / 1125899906842624 + 3602879701896397 / 18014398509481984) = Fin (6755399441055743 / 4503599627370496)"
  by (rule fl_eqI [where e = "0" and m = 6755399441055743]; simp add: binade_eval)

lemma fl_step_8: "fl (1275 / 100) = Fin (51 / 4)"
  by (rule fl_eqI [where e = "3" and m = 7177611906121728]; simp add: binade_eval)

lemma fl_step_9: "fl (5000 / 100) = Fin (50)"
  by (rule fl_eqI [where e = "5" and m = 7036874417766400]; simp add: binade_eval)

lemma fl_step_10: "fl (7500 / 1000) = Fin (15 / 2)"
  by (rule fl_eqI [where e = "2" and m = 8444249301319680]; simp add: binade_eval)

lemma fl_step_11: "fl (85 / 2 / 10) = Fin (17 / 4)"
  by (rule fl_eqI [where e = "2" and m = 4785074604081152]; simp add: binade_eval)

lemma fl_step_12: "fl (0 + 51 / 4) = Fin (51 / 4)"
  by (rule fl_eqI [where e = "3" and m = 7177611906121728]; simp add: binade_eval)

lemma fl_step_13: "fl (51 / 4 + 25) = Fin (151 / 4)"
  by (rule fl_eqI [where e = "5" and m = 5312840185413632]; simp add: binade_eval)

lemma fl_step_14: "fl (151 / 4 + 15 / 2) = Fin (181 / 4)"
  by (rule fl_eqI [where e = "5" and m = 6368371348078592]; simp add: binade_eval)

lemma fl_step_15: "fl (181 / 4 + 3) = Fin (193 / 4)"
  by (rule fl_eqI [where e = "5" and m = 6790583813144576]; simp add: binade_eval)

lemma fl_step_16: "fl (193 / 4 + 17 / 4) = Fin (105 / 2)"
  by (rule fl_eqI [where e = "5" and m = 7388718138654720]; simp add: binade_eval)


lemma lowMetrics_sum: "impactSum lowMetrics = Fin (6755399441055743 / 4503599627370496)"
  using fl_step_1 fl_step_2 fl_step_3 fl_step_4 fl_step_5 fl_step_6 fl_step_7
  by (simp add: impactSum_def lowMetrics_def Let_def fl_zero)

lemma halfwayMetrics_sum: "impactSum halfwayMetrics = Fin (105 / 2)"
  using fl_step_8 fl_step_9 fl_step_10 fl_step_11 fl_step_12 fl_step_13 fl_step_14 fl_step_15 fl_step_16
  by (simp add: impactSum_def halfwayMetrics_def Let_def fl_zero)

section \<open>Facts about the sample data\<close>

lemma cast_samples:
  "castObjectId ''64b7f1a2c3d4e5f6a7b8c9d0'' = Inr ''64b7f1a2c3d4e5f6a7b8c9d0''"
  "castObjectId ''64b7f1a2c3d4e5f6a7b8c9e0'' = Inr ''64b7f1a2c3d4e5f6a7b8c9e0''"
  "castObjectId ''64b7f1a2c3d4e5f6a7b8c9d2'' = Inr ''64b7f1a2c3d4e5f6a7b8c9d2''"
  "castObjectId ''64b7f1a2c3d4e5f6a7b8c9d3'' = Inr ''64b7f1a2c3d4e5f6a7b8c9d3''"
  "castObjectId ''64b7f1a2c3d4e5f6a7b8c9ff'' = Inr ''64b7f1a2c3d4e5f6a7b8c9ff''"
  "castObjectId ''64B7F1A2C3D4E5F6A7B8C9D1'' = Inr ''64b7f1a2c3d4e5f6a7b8c9d1''"
  "castObjectId ''[object Object]'' = Inl CastError"
  by (simp_all add: castObjectId_def isHexDigit_def lowerHex_def)

lemma sample_lookup:
  "findById initiative_id [sampleInitiative] ''64b7f1a2c3d4e5f6a7b8c9d0'' = Inr (Some sampleInitiative)"
  "findById event_id [sampleEvent] ''64b7f1a2c3d4e5f6a7b8c9e0'' = Inr (Some sampleEvent)"
  by (simp_all add: findById_def cast_samples sampleInitiative_def sampleEvent_def)

lemma sample_tokens:
  "bearerToken \<lparr>authorization = None, req_user = None\<rparr> = None"
  "bearerToken \<lparr>authorization = Some ''Bearer '', req_user = None\<rparr> = Some []"
  "bearerToken \<lparr>authorization = Some ''Bearer forged'', req_user = None\<rparr> = Some ''forged''"
  "bearerToken \<lparr>authorization = Some ''Bearer ghost.token'', req_user = None\<rparr> = Some ''ghost.token''"
  "bearerToken \<lparr>authorization = Some ''Bearer bob.token'', req_user = None\<rparr> = Some ''bob.token''"
  "bearerToken \<lparr>authorization = Some ''Bearer carol.token'', req_user = None\<rparr> = Some ''carol.token''"
  by (simp_all add: bearerToken_def)

lemma sample_subjects:
  "findSubject sampleUsers \<lparr>userId = Some ''64b7f1a2c3d4e5f6a7b8c9ff''\<rparr> = Inr None"
  "findSubject sampleUsers \<lparr>userId = Some ''64b7f1a2c3d4e5f6a7b8c9d2''\<rparr> = Inr (Some bob)"
  "findSubject sampleUsers \<lparr>userId = Some ''64b7f1a2c3d4e5f6a7b8c9d3''\<rparr> = Inr (Some carol)"
  by (simp_all add: findSubject_def findById_def cast_samples sampleUsers_def alice_def bob_def
      carol_def)

lemma sample_verdicts:
  "sampleVerify ''forged'' = None"
  "sampleVerify ''ghost.token'' = Some \<lparr>userId = Some ''64b7f1a2c3d4e5f6a7b8c9ff''\<rparr>"
  "sampleVerify ''bob.token'' = Some \<lparr>userId = Some ''64b7f1a2c3d4e5f6a7b8c9d2''\<rparr>"
  "sampleVerify ''carol.token'' = Some \<lparr>userId = Some ''64b7f1a2c3d4e5f6a7b8c9d3''\<rparr>"
  by (simp_all add: sampleVerify_def)

lemma sample_inbox:
  "sortNewestFirst (filter (inboxQuery bob None) sampleMessages)
     = [sampleMessage ''64b7f1a2c3d4e5f6a7b8c9a4'' 400 alice bob,
        sampleMessage ''64b7f1a2c3d4e5f6a7b8c9a2'' 200 carol bob,
        readMessage]"
  by (simp add: sortNewestFirst_def inboxQuery_def sampleMessages_def readMessage_def
      sampleMessage_def alice_def bob_def carol_def)

lemma numbered_page:
  "map ((!) (map numbered [1..<26])) [10..<20] = map numbered [11..<21]"
  by (simp add: upt_rec numeral_nat)

lemma message_ids:
  "castObjectId ''64b7f1a2c3d4e5f6a7b8c9a1'' = Inr ''64b7f1a2c3d4e5f6a7b8c9a1''"
  by (simp add: castObjectId_def isHexDigit_def lowerHex_def)

lemma sample_read_lookup:
  "findById message_id sampleMessages ''64b7f1a2c3d4e5f6a7b8c9a1'' = Inr (Some readMessage)"
  by (simp add: findById_def message_ids sampleMessages_def readMessage_def sampleMessage_def)


section \<open>Feedback and derived ratings\<close>





















lemma sample_addFeedback_refused:
  "initiative_addFeedback True 3000 sampleInitiative ''64b7f1a2c3d4e5f6a7b8c9d1'' (Some (Fin 6)) None
     = Inl ValidationError"
  "event_addFeedback True 3000 threesEvent ''64b7f1a2c3d4e5f6a7b8c9d1'' None None
     = Inl ValidationError"
  by (simp_all add: initiative_addFeedback_def event_addFeedback_def sampleInitiative_def
      sampleEvent_def threesEvent_def sampleFeedback_def feedbackValid_def newFeedback_def Let_def)
section \<open>Attendance and capacity\<close>

lemma eventIsFull_never: "\<not> eventIsFull e"
  by (simp add: eventIsFull_def event_number_def)

lemma events_attend_never_full:
  "fst (events_attend db reqUser paramId) \<noteq> SentMessage 400 ''Event is full''"
  by (simp add: events_attend_def eventIsFull_never Let_def split: sum.splits option.splits)

text \<open>
  C2, evaluated. The sample event stores \<^verbatim>\<open>capacity = 1\<close> and already has its organizer
  Alice as attendee. Reading \<^verbatim>\<open>maxAttendees\<close> from it gives \<^verbatim>\<open>undefined\<close>, so Bob and then
  Carol are both accepted and the event ends with three attendees; only the repeated attempt
  of Alice is refused, with 400.
\<close>

theorem attend_exceeds_capacity:
  "capacity sampleEvent = 1
   \<and> attendees sampleEvent = [user_id alice]
   \<and> event_number sampleEvent ''maxAttendees'' = None
   \<and> events_attend [sampleEvent] bob ''64b7f1a2c3d4e5f6a7b8c9e0''
       = (Sent (sampleEvent\<lparr>attendees := [user_id alice, user_id bob]\<rparr>),
          [sampleEvent\<lparr>attendees := [user_id alice, user_id bob]\<rparr>])
   \<and> events_attend [sampleEvent\<lparr>attendees := [user_id alice, user_id bob]\<rparr>] carol
         ''64b7f1a2c3d4e5f6a7b8c9e0''
       = (Sent (sampleEvent\<lparr>attendees := [user_id alice, user_id bob, user_id carol]\<rparr>),
          [sampleEvent\<lparr>attendees := [user_id alice, user_id bob, user_id carol]\<rparr>])
   \<and> events_attend [sampleEvent] alice ''64b7f1a2c3d4e5f6a7b8c9e0''
       = (SentMessage 400 ''Already attending this event'', [sampleEvent])"
  by (simp add: events_attend_def findById_def cast_samples sampleEvent_def sampleFeedback_def
      alice_def bob_def carol_def eventIsFull_never event_number_def event_pre_save_def
      recomputeRating_def saveDoc_def Let_def fl_zero fl_numeral fl_samples)

section \<open>Joining an initiative\<close>

lemma findMember_plain: "findMember uid (map PlainId (m # ms)) = Inl TypeError"
  by simp

lemma initiatives_join_never_joins:
  "snd (initiatives_join db reqUser paramId bodyRole) = db
   \<and> (fst (initiatives_join db reqUser paramId bodyRole) = SentText 500 ''Server error''
      \<or> fst (initiatives_join db reqUser paramId bodyRole) = SentMessage 404 ''Initiative not found'')"
proof (cases "findById initiative_id db paramId")
  case (Inl e)
  then show ?thesis by (simp add: initiatives_join_def)
next
  case (Inr found)
  show ?thesis
  proof (cases found)
    case None
    with Inr show ?thesis by (simp add: initiatives_join_def)
  next
    case (Some d)
    show ?thesis
    proof (cases "members d")
      case Nil
      with Inr Some show ?thesis by (simp add: initiatives_join_def cast_samples)
    next
      case (Cons m ms)
      with Inr Some show ?thesis by (simp add: initiatives_join_def)
    qed
  qed
qed

text \<open>
  C3, evaluated. The sample initiative has its creator Alice as only member. A join by Bob,
  who is not a member, and a join by Alice, who is one, are both answered 500, and the
  collection stays as it was: no entry is added and no 400 is sent. With an empty member
  list the pushed object fails its cast and the answer is 500 as well.
\<close>

theorem join_answers_500:
  "members sampleInitiative = [user_id alice]
   \<and> initiatives_join [sampleInitiative] bob ''64b7f1a2c3d4e5f6a7b8c9d0'' None
       = (SentText 500 ''Server error'', [sampleInitiative])
   \<and> initiatives_join [sampleInitiative] alice ''64b7f1a2c3d4e5f6a7b8c9d0'' None
       = (SentText 500 ''Server error'', [sampleInitiative])
   \<and> initiatives_join [sampleInitiative\<lparr>members := []\<rparr>] bob ''64b7f1a2c3d4e5f6a7b8c9d0'' None
       = (SentText 500 ''Server error'', [sampleInitiative\<lparr>members := []\<rparr>])"
  by (simp add: initiatives_join_def findById_def cast_samples sampleInitiative_def alice_def)

section \<open>Notifications and their recipient\<close>

lemma notification_owned_throws: "notification_owned n reqUser = Inl TypeError"
  by (simp add: notification_owned_def notification_ref_def)

lemma notification_find_user:
  "notification_find strictQuery db [IdIs ''user'' uid] = (if strictQuery then db else [])"
  by (simp add: notification_find_def notification_paths_def)

text \<open>
  C4, evaluated. Bob asks for his own notification and for Alice's: get, mark-read and
  delete answer 500 in both cases, neither a success nor a 404, and change nothing. The
  list and the unread count filter on the path \<^verbatim>\<open>user\<close>: with \<^verbatim>\<open>strictQuery\<close> off Bob gets
  no notification and the count 0, with \<^verbatim>\<open>strictQuery\<close> on he gets both notifications,
  Alice's included, and the count 2; the notifications whose recipient is Bob are exactly
  one.
\<close>

theorem notifications_not_recipient_scoped:
  "filter (\<lambda>n. recipient n = user_id bob) sampleNotifications = [bobsNotification]
   \<and> notifications_getById sampleNotifications bob ''64b7f1a2c3d4e5f6a7b8c9b1''
       = (SentMessage 500 ''Server error'', sampleNotifications)
   \<and> notifications_markRead sampleNotifications bob ''64b7f1a2c3d4e5f6a7b8c9b1''
       = (SentMessage 500 ''Server error'', sampleNotifications)
   \<and> notifications_delete sampleNotifications bob ''64b7f1a2c3d4e5f6a7b8c9b1''
       = (SentMessage 500 ''Server error'', sampleNotifications)
   \<and> notifications_getById sampleNotifications bob ''64b7f1a2c3d4e5f6a7b8c9b2''
       = (SentMessage 500 ''Server error'', sampleNotifications)
   \<and> notifications_list False sampleNotifications bob = Sent []
   \<and> notifications_list True sampleNotifications bob = Sent [alicesNotification, bobsNotification]
   \<and> notifications_unreadCount False sampleNotifications bob = Sent 0
   \<and> notifications_unreadCount True sampleNotifications bob = Sent 2"
proof -
  have ids: "castObjectId ''64b7f1a2c3d4e5f6a7b8c9b1'' = Inr ''64b7f1a2c3d4e5f6a7b8c9b1''"
    "castObjectId ''64b7f1a2c3d4e5f6a7b8c9b2'' = Inr ''64b7f1a2c3d4e5f6a7b8c9b2''"
    by (simp_all add: castObjectId_def isHexDigit_def lowerHex_def)
  have found: "findById notification_id sampleNotifications ''64b7f1a2c3d4e5f6a7b8c9b1''
      = Inr (Some bobsNotification)"
    "findById notification_id sampleNotifications ''64b7f1a2c3d4e5f6a7b8c9b2''
      = Inr (Some alicesNotification)"
    by (simp_all add: findById_def ids sampleNotifications_def bobsNotification_def
        alicesNotification_def)
  have mine: "filter (\<lambda>n. recipient n = user_id bob) sampleNotifications = [bobsNotification]"
    by (simp add: sampleNotifications_def bobsNotification_def alicesNotification_def bob_def
        alice_def)
  have one: "notifications_getById sampleNotifications bob ''64b7f1a2c3d4e5f6a7b8c9b1''
       = (SentMessage 500 ''Server error'', sampleNotifications)"
    "notifications_markRead sampleNotifications bob ''64b7f1a2c3d4e5f6a7b8c9b1''
       = (SentMessage 500 ''Server error'', sampleNotifications)"
    "notifications_delete sampleNotifications bob ''64b7f1a2c3d4e5f6a7b8c9b1''
       = (SentMessage 500 ''Server error'', sampleNotifications)"
    "notifications_getById sampleNotifications bob ''64b7f1a2c3d4e5f6a7b8c9b2''
       = (SentMessage 500 ''Server error'', sampleNotifications)"
    by (simp_all add: notifications_getById_def notifications_markRead_def
        notifications_delete_def found notification_owned_throws)
  have lists: "notifications_list False sampleNotifications bob = Sent []"
    "notifications_list True sampleNotifications bob = Sent [alicesNotification, bobsNotification]"
    by (simp_all add: notifications_list_def notification_find_user sortNewestFirst_def
        sampleNotifications_def bobsNotification_def alicesNotification_def)
  have counts: "notifications_unreadCount False sampleNotifications bob = Sent 0"
    "notifications_unreadCount True sampleNotifications bob = Sent 2"
    by (simp_all add: notifications_unreadCount_def notification_find_def notification_paths_def
        sampleNotifications_def bobsNotification_def alicesNotification_def)
  show ?thesis using mine one lists counts by simp
qed

section \<open>Ownership of updates and deletions\<close>

text \<open>A stored document is what \<^verbatim>\<open>findById\<close> yields for its id, the ids being distinct.\<close>

lemma find_stored:
  "d \<in> set db \<Longrightarrow> distinct (map key db) \<Longrightarrow> find (\<lambda>x. key x = key d) db = Some d"
  by (induction db) (auto simp: image_iff)

lemma findById_stored:
  assumes "d \<in> set db" "distinct (map key db)" "castObjectId s = Inr (key d)"
  shows "findById key db s = Inr (Some d)"
  using assms by (simp add: findById_def find_stored)

text \<open>
  C5. When the request addresses a stored initiative (or event) and the acting user is
  neither its creator (organizer) nor an admin, update and delete both answer 401 and hand
  back the collection as it was, whatever the body of the update.
\<close>

theorem update_delete_need_owner_or_admin:
  "(findById initiative_id idb p = Inr (Some d) \<and> creator d \<noteq> user_id u \<and> role u \<noteq> ''admin''
      \<longrightarrow> initiatives_put idb u p body = (SentMessage 401 ''Not authorized'', idb)
          \<and> initiatives_delete idb u p = (SentMessage 401 ''Not authorized'', idb))
   \<and> (findById event_id edb q = Inr (Some e) \<and> organizer e \<noteq> user_id u \<and> role u \<noteq> ''admin''
      \<longrightarrow> events_put edb u q ebody = (SentMessage 401 ''Not authorized'', edb)
          \<and> events_delete edb u q = (SentMessage 401 ''Not authorized'', edb))"
  by (simp add: initiatives_put_def initiatives_delete_def events_put_def events_delete_def)

theorem update_delete_need_owner_or_admin_witness:
  "findById initiative_id [sampleInitiative] ''64b7f1a2c3d4e5f6a7b8c9d0'' = Inr (Some sampleInitiative)
   \<and> creator sampleInitiative \<noteq> user_id bob \<and> role bob \<noteq> ''admin''
   \<and> initiatives_put [sampleInitiative] bob ''64b7f1a2c3d4e5f6a7b8c9d0'' (\<lambda>i. i\<lparr>creator := user_id bob\<rparr>)
       = (SentMessage 401 ''Not authorized'', [sampleInitiative])
   \<and> initiatives_delete [sampleInitiative] bob ''64b7f1a2c3d4e5f6a7b8c9d0''
       = (SentMessage 401 ''Not authorized'', [sampleInitiative])
   \<and> findById event_id [sampleEvent] ''64b7f1a2c3d4e5f6a7b8c9e0'' = Inr (Some sampleEvent)
   \<and> organizer sampleEvent \<noteq> user_id bob
   \<and> events_put [sampleEvent] bob ''64b7f1a2c3d4e5f6a7b8c9e0'' (\<lambda>e. e\<lparr>organizer := user_id bob\<rparr>)
       = (SentMessage 401 ''Not authorized'', [sampleEvent])
   \<and> events_delete [sampleEvent] bob ''64b7f1a2c3d4e5f6a7b8c9e0''
       = (SentMessage 401 ''Not authorized'', [sampleEvent])"
proof -
  have who: "creator sampleInitiative \<noteq> user_id bob" "organizer sampleEvent \<noteq> user_id bob"
    "role bob \<noteq> ''admin''"
    by (simp_all add: sampleInitiative_def sampleEvent_def bob_def)
  show ?thesis
    using update_delete_need_owner_or_admin [of "[sampleInitiative]" "''64b7f1a2c3d4e5f6a7b8c9d0''"
        sampleInitiative bob "\<lambda>i. i\<lparr>creator := user_id bob\<rparr>" "[sampleEvent]"
        "''64b7f1a2c3d4e5f6a7b8c9e0''" sampleEvent "\<lambda>e. e\<lparr>organizer := user_id bob\<rparr>"]
      who sample_lookup
    by blast
qed

section \<open>Authentication and role gates\<close>

text \<open>
  C6. A request without a token, with a token that verification refuses, or with a token
  whose subject is no stored user is answered 401 by all three middlewares, by a reply in
  which the rest of the route does not occur. When the subject is a stored user, \<^verbatim>\<open>auth\<close>
  hands the request with that user to the route; \<^verbatim>\<open>adminAuth\<close> answers 403 unless the role
  is admin and \<^verbatim>\<open>moderatorAuth\<close> answers 403 unless it is admin or moderator, and only
  otherwise do they hand the request on.
\<close>

theorem auth_gates_every_protected_route:
  "(bearerToken req = None \<or> bearerToken req = Some [] \<longrightarrow>
      auth verify users req next = SentMessage 401 ''No token, authorization denied''
      \<and> adminAuth verify users req next = SentMessage 401 ''No token, authorization denied''
      \<and> moderatorAuth verify users req next = SentMessage 401 ''No token, authorization denied'')
   \<and> (bearerToken req = Some token \<and> token \<noteq> [] \<and> verify token = None \<longrightarrow>
      auth verify users req next = SentMessage 401 ''Token is not valid''
      \<and> adminAuth verify users req next = SentMessage 401 ''Token is not valid''
      \<and> moderatorAuth verify users req next = SentMessage 401 ''Token is not valid'')
   \<and> (bearerToken req = Some token \<and> token \<noteq> [] \<and> verify token = Some decoded
        \<and> (findSubject users decoded = Inr None \<or> findSubject users decoded = Inl e) \<longrightarrow>
      auth verify users req next = SentMessage 401 ''Token is not valid''
      \<and> adminAuth verify users req next = SentMessage 401 ''Token is not valid''
      \<and> moderatorAuth verify users req next = SentMessage 401 ''Token is not valid'')
   \<and> (bearerToken req = Some token \<and> token \<noteq> [] \<and> verify token = Some decoded
        \<and> findSubject users decoded = Inr (Some u) \<longrightarrow>
      auth verify users req next = next (req\<lparr>req_user := Some u\<rparr>)
      \<and> adminAuth verify users req next =
          (if role u \<noteq> ''admin'' then SentMessage 403 ''Access denied. Admin only.''
           else next (req\<lparr>req_user := Some u\<rparr>))
      \<and> moderatorAuth verify users req next =
          (if role u \<noteq> ''admin'' \<and> role u \<noteq> ''moderator''
           then SentMessage 403 ''Access denied. Moderator or admin only.''
           else next (req\<lparr>req_user := Some u\<rparr>)))"
  by (auto simp: auth_def adminAuth_def moderatorAuth_def)

theorem auth_gates_every_protected_route_witness:
  "bearerToken \<lparr>authorization = None, req_user = None\<rparr> = None
   \<and> auth sampleVerify sampleUsers \<lparr>authorization = None, req_user = None\<rparr>
        (\<lambda>r. Sent (req_user r)) = SentMessage 401 ''No token, authorization denied''
   \<and> bearerToken \<lparr>authorization = Some ''Bearer forged'', req_user = None\<rparr> = Some ''forged''
   \<and> sampleVerify ''forged'' = None
   \<and> auth sampleVerify sampleUsers \<lparr>authorization = Some ''Bearer forged'', req_user = None\<rparr>
        (\<lambda>r. Sent (req_user r)) = SentMessage 401 ''Token is not valid''
   \<and> findSubject sampleUsers \<lparr>userId = Some ''64b7f1a2c3d4e5f6a7b8c9ff''\<rparr> = Inr None
   \<and> adminAuth sampleVerify sampleUsers
        \<lparr>authorization = Some ''Bearer ghost.token'', req_user = None\<rparr>
        (\<lambda>r. Sent (req_user r)) = SentMessage 401 ''Token is not valid''
   \<and> findSubject sampleUsers \<lparr>userId = Some ''64b7f1a2c3d4e5f6a7b8c9d2''\<rparr> = Inr (Some bob)
   \<and> auth sampleVerify sampleUsers \<lparr>authorization = Some ''Bearer bob.token'', req_user = None\<rparr>
        (\<lambda>r. Sent (req_user r)) = Sent (Some bob)
   \<and> adminAuth sampleVerify sampleUsers
        \<lparr>authorization = Some ''Bearer bob.token'', req_user = None\<rparr>
        (\<lambda>r. Sent (req_user r)) = SentMessage 403 ''Access denied. Admin only.''
   \<and> moderatorAuth sampleVerify sampleUsers
        \<lparr>authorization = Some ''Bearer bob.token'', req_user = None\<rparr>
        (\<lambda>r. Sent (req_user r)) = SentMessage 403 ''Access denied. Moderator or admin only.''
   \<and> findSubject sampleUsers \<lparr>userId = Some ''64b7f1a2c3d4e5f6a7b8c9d3''\<rparr> = Inr (Some carol)
   \<and> adminAuth sampleVerify sampleUsers
        \<lparr>authorization = Some ''Bearer carol.token'', req_user = None\<rparr>
        (\<lambda>r. Sent (req_user r)) = Sent (Some carol)"
proof -
  let ?h = "\<lambda>r::request. (Sent (req_user r) :: user option reply)"
  let ?none = "\<lparr>authorization = None, req_user = None\<rparr>"
  let ?forged = "\<lparr>authorization = Some ''Bearer forged'', req_user = None\<rparr>"
  let ?ghost = "\<lparr>authorization = Some ''Bearer ghost.token'', req_user = None\<rparr>"
  let ?bob = "\<lparr>authorization = Some ''Bearer bob.token'', req_user = None\<rparr>"
  let ?carol = "\<lparr>authorization = Some ''Bearer carol.token'', req_user = None\<rparr>"
  have roles: "role bob \<noteq> ''admin''" "role bob \<noteq> ''moderator''" "role carol = ''admin''"
    by (simp_all add: bob_def carol_def)
  have c1: "auth sampleVerify sampleUsers ?none ?h = SentMessage 401 ''No token, authorization denied''"
    using auth_gates_every_protected_route [of ?none sampleVerify sampleUsers ?h]
      sample_tokens(1) by blast
  have c2: "auth sampleVerify sampleUsers ?forged ?h = SentMessage 401 ''Token is not valid''"
    using auth_gates_every_protected_route [of ?forged sampleVerify sampleUsers ?h "''forged''"]
      sample_tokens(3) sample_verdicts(1) by simp
  have c3: "adminAuth sampleVerify sampleUsers ?ghost ?h = SentMessage 401 ''Token is not valid''"
    using auth_gates_every_protected_route [of ?ghost sampleVerify sampleUsers ?h "''ghost.token''"
        "\<lparr>userId = Some ''64b7f1a2c3d4e5f6a7b8c9ff''\<rparr>"]
      sample_tokens(4) sample_verdicts(2) sample_subjects(1) by simp
  have c4: "auth sampleVerify sampleUsers ?bob ?h = Sent (Some bob)"
    "adminAuth sampleVerify sampleUsers ?bob ?h = SentMessage 403 ''Access denied. Admin only.''"
    "moderatorAuth sampleVerify sampleUsers ?bob ?h
       = SentMessage 403 ''Access denied. Moderator or admin only.''"
    using auth_gates_every_protected_route [of ?bob sampleVerify sampleUsers ?h "''bob.token''"
        "\<lparr>userId = Some ''64b7f1a2c3d4e5f6a7b8c9d2''\<rparr>" _ bob]
      sample_tokens(5) sample_verdicts(3) sample_subjects(2) roles by simp_all
  have c5: "adminAuth sampleVerify sampleUsers ?carol ?h = Sent (Some carol)"
    using auth_gates_every_protected_route [of ?carol sampleVerify sampleUsers ?h "''carol.token''"
        "\<lparr>userId = Some ''64b7f1a2c3d4e5f6a7b8c9d3''\<rparr>" _ carol]
      sample_tokens(6) sample_verdicts(4) sample_subjects(3) roles by simp
  show ?thesis
    using c1 c2 c3 c4 c5 sample_tokens(1,3) sample_verdicts(1) sample_subjects by simp
qed

section \<open>Paged listings\<close>

lemma take_drop_nths:
  "m + n \<le> length xs \<Longrightarrow> take n (drop m xs) = map ((!) xs) [m..<m + n]"
  by (rule nth_equalityI) simp_all

lemma listPage_regular:
  assumes "1 \<le> pageNo" "1 \<le> limitNo"
  shows "listPage matching pageNo limitNo =
     Inr \<lparr>docs = take (nat limitNo) (drop (nat ((pageNo - 1) * limitNo)) matching),
          totalPages = Some \<lceil>(of_nat (length matching) :: rat) / of_int limitNo\<rceil>,
          currentPage = pageNo, total = length matching\<rparr>"
proof -
  have "0 \<le> (pageNo - 1) * limitNo" using assms by simp
  then have "cursor_skip ((pageNo - 1) * limitNo) matching
      = Inr (drop (nat ((pageNo - 1) * limitNo)) matching)"
    by (simp add: cursor_skip_def)
  moreover have "cursor_limit (limitNo * 1) xs = take (nat limitNo) xs" for xs :: "'a list"
    using assms(2) by (simp add: cursor_limit_def)
  moreover have "limitNo \<noteq> 0" using assms(2) by simp
  ultimately show ?thesis by (simp add: listPage_def)
qed

lemma ceiling_25_10: "\<lceil>(of_nat 25 :: rat) / of_int 10\<rceil> = 3"
  by (rule ceiling_unique) simp_all

lemma listPage_second_of_three:
  assumes "length matching = 25"
  shows "listPage matching 2 10 =
     Inr \<lparr>docs = map ((!) matching) [10..<20], totalPages = Some 3, currentPage = 2, total = 25\<rparr>"
proof -
  have "take 10 (drop 10 matching) = map ((!) matching) [10..<10 + 10]"
    by (rule take_drop_nths) (simp add: assms)
  then show ?thesis
    using listPage_regular [of 2 10 matching] ceiling_25_10 by (simp add: assms)
qed

text \<open>
  C7. With a page number of at least 1 and a limit of at least 1, a listing skips
  \<open>(page - 1) * limit\<close> of the matching documents, returns at most \<open>limit\<close> of the following
  ones, and echoes the ceiling of \<open>total / limit\<close>, the page and the total; so do the
  initiatives listing and the inbox. With 25 matching documents, \<open>limit = 10\<close> and
  \<open>page = 2\<close>, the reply holds the documents at positions 11 to 20 (indices 10 to 19), in
  order, and \<open>totalPages = 3\<close>.
\<close>

theorem listing_skips_and_limits:
  "(1 \<le> pageNo \<and> 1 \<le> limitNo \<longrightarrow>
      listPage matching pageNo limitNo =
        Inr \<lparr>docs = take (nat limitNo) (drop (nat ((pageNo - 1) * limitNo)) matching),
             totalPages = Some \<lceil>(of_nat (length matching) :: rat) / of_int limitNo\<rceil>,
             currentPage = pageNo, total = length matching\<rparr>
      \<and> length (take (nat limitNo) (drop (nat ((pageNo - 1) * limitNo)) matching)) \<le> nat limitNo
      \<and> initiatives_list found (Some pageNo) (Some limitNo) =
        Sent \<lparr>docs = take (nat limitNo) (drop (nat ((pageNo - 1) * limitNo)) found),
              totalPages = Some \<lceil>(of_nat (length found) :: rat) / of_int limitNo\<rceil>,
              currentPage = pageNo, total = length found\<rparr>
      \<and> messages_inbox db reqUser (Some pageNo) (Some limitNo) unreadOnly =
        Sent \<lparr>docs = take (nat limitNo) (drop (nat ((pageNo - 1) * limitNo))
                       (sortNewestFirst (filter (inboxQuery reqUser unreadOnly) db))),
              totalPages = Some \<lceil>(of_nat (length (filter (inboxQuery reqUser unreadOnly) db)) :: rat)
                                 / of_int limitNo\<rceil>,
              currentPage = pageNo,
              total = length (filter (inboxQuery reqUser unreadOnly) db)\<rparr>)
   \<and> (length matching = 25 \<longrightarrow>
      listPage matching 2 10 =
        Inr \<lparr>docs = map ((!) matching) [10..<20], totalPages = Some 3, currentPage = 2,
             total = 25\<rparr>)
   \<and> (length found = 25 \<longrightarrow>
      initiatives_list found (Some 2) (Some 10) =
        Sent \<lparr>docs = map ((!) found) [10..<20], totalPages = Some 3, currentPage = 2,
              total = 25\<rparr>)"
proof (intro conjI impI)
  assume a: "1 \<le> pageNo \<and> 1 \<le> limitNo"
  then have p: "1 \<le> pageNo" and l: "1 \<le> limitNo" by simp_all
  show "listPage matching pageNo limitNo =
        Inr \<lparr>docs = take (nat limitNo) (drop (nat ((pageNo - 1) * limitNo)) matching),
             totalPages = Some \<lceil>(of_nat (length matching) :: rat) / of_int limitNo\<rceil>,
             currentPage = pageNo, total = length matching\<rparr>"
    using p l by (rule listPage_regular)
  show "length (take (nat limitNo) (drop (nat ((pageNo - 1) * limitNo)) matching)) \<le> nat limitNo"
    by simp
  show "initiatives_list found (Some pageNo) (Some limitNo) =
        Sent \<lparr>docs = take (nat limitNo) (drop (nat ((pageNo - 1) * limitNo)) found),
              totalPages = Some \<lceil>(of_nat (length found) :: rat) / of_int limitNo\<rceil>,
              currentPage = pageNo, total = length found\<rparr>"
    by (simp add: initiatives_list_def listPage_regular [OF p l])
  have len: "length (sortNewestFirst xs) = length xs" for xs :: "message list"
    by (simp add: sortNewestFirst_def)
  show "messages_inbox db reqUser (Some pageNo) (Some limitNo) unreadOnly =
        Sent \<lparr>docs = take (nat limitNo) (drop (nat ((pageNo - 1) * limitNo))
                       (sortNewestFirst (filter (inboxQuery reqUser unreadOnly) db))),
              totalPages = Some \<lceil>(of_nat (length (filter (inboxQuery reqUser unreadOnly) db)) :: rat)
                                 / of_int limitNo\<rceil>,
              currentPage = pageNo,
              total = length (filter (inboxQuery reqUser unreadOnly) db)\<rparr>"
    by (simp add: messages_inbox_def listPage_regular [OF p l] len)
next
  assume "length matching = 25"
  then show "listPage matching 2 10 =
        Inr \<lparr>docs = map ((!) matching) [10..<20], totalPages = Some 3, currentPage = 2,
             total = 25\<rparr>"
    by (rule listPage_second_of_three)
next
  assume "length found = 25"
  then show "initiatives_list found (Some 2) (Some 10) =
        Sent \<lparr>docs = map ((!) found) [10..<20], totalPages = Some 3, currentPage = 2,
              total = 25\<rparr>"
    by (simp add: initiatives_list_def listPage_second_of_three)
qed

theorem listing_skips_and_limits_witness:
  "(1::int) \<le> 2 \<and> (1::int) \<le> 10 \<and> length [1..<26::nat] = 25
   \<and> listPage [1..<26::nat] 2 10 =
       Inr \<lparr>docs = [11, 12, 13, 14, 15, 16, 17, 18, 19, 20], totalPages = Some 3,
            currentPage = 2, total = 25\<rparr>
   \<and> length (map numbered [1..<26]) = 25
   \<and> initiatives_list (map numbered [1..<26]) (Some 2) (Some 10) =
       Sent \<lparr>docs = map numbered [11..<21], totalPages = Some 3, currentPage = 2, total = 25\<rparr>
   \<and> messages_inbox sampleMessages bob (Some 2) (Some 1) None =
       Sent \<lparr>docs = [sampleMessage ''64b7f1a2c3d4e5f6a7b8c9a2'' 200 carol bob],
             totalPages = Some 3, currentPage = 2, total = 3\<rparr>"
proof -
  have l25: "length [1..<26::nat] = 25" "length (map numbered [1..<26]) = 25" by simp_all
  have a: "listPage [1..<26::nat] 2 10 =
       Inr \<lparr>docs = map ((!) [1..<26::nat]) [10..<20], totalPages = Some 3, currentPage = 2,
            total = 25\<rparr>"
    and b: "initiatives_list (map numbered [1..<26]) (Some 2) (Some 10) =
       Sent \<lparr>docs = map ((!) (map numbered [1..<26])) [10..<20], totalPages = Some 3,
             currentPage = 2, total = 25\<rparr>"
    using listing_skips_and_limits [of 2 10 "[1..<26::nat]" "map numbered [1..<26]"] l25
    by blast+
  have nums: "map ((!) [1..<26::nat]) [10..<20] = [11, 12, 13, 14, 15, 16, 17, 18, 19, 20]"
    by (simp add: upt_rec numeral_nat)
  have len3: "length (filter (inboxQuery bob None) sampleMessages) = 3"
    using arg_cong [OF sample_inbox, of length] by (simp add: sortNewestFirst_def)
  have c: "messages_inbox sampleMessages bob (Some 2) (Some 1) None =
       Sent \<lparr>docs = [sampleMessage ''64b7f1a2c3d4e5f6a7b8c9a2'' 200 carol bob],
             totalPages = Some 3, currentPage = 2, total = 3\<rparr>"
    using listing_skips_and_limits [of 2 1 "[]::nat list" "[]" sampleMessages bob None]
    by (simp add: sample_inbox len3)
  show ?thesis using a b c l25 nums numbered_page by simp
qed

section \<open>Marking a message read\<close>

lemma messages_getById_read_unchanged:
  assumes "findById message_id db paramId = Inr (Some m)" "isRead m"
  shows "snd (messages_getById users db reqUser paramId now) = db"
  using assms by (simp add: messages_getById_def split: option.splits)

text \<open>
  C8, evaluated. Bob's first message was read at time 150. Marking it read again at time 900
  through \<^verbatim>\<open>PUT /:id/read\<close> stores \<^verbatim>\<open>readAt = 900\<close>; marking twice, at 500 and at 900, does
  not leave what marking once at 500 leaves. Fetching the same message through
  \<^verbatim>\<open>GET /:id\<close> at time 900 changes nothing.
\<close>

theorem markRead_overwrites_readAt:
  "isRead readMessage \<and> readAt readMessage = Some 150 \<and> recipient readMessage = user_id bob
   \<and> fst (messages_markRead sampleMessages bob ''64b7f1a2c3d4e5f6a7b8c9a1'' 900)
       = Sent (readMessage\<lparr>readAt := Some 900\<rparr>)
   \<and> map readAt (snd (messages_markRead sampleMessages bob ''64b7f1a2c3d4e5f6a7b8c9a1'' 900))
       = [Some 900, None, None, None]
   \<and> snd (messages_markRead
            (snd (messages_markRead sampleMessages bob ''64b7f1a2c3d4e5f6a7b8c9a1'' 500))
            bob ''64b7f1a2c3d4e5f6a7b8c9a1'' 900)
       \<noteq> snd (messages_markRead sampleMessages bob ''64b7f1a2c3d4e5f6a7b8c9a1'' 500)
   \<and> messages_getById sampleUsers sampleMessages bob ''64b7f1a2c3d4e5f6a7b8c9a1'' 900
       = (Sent readMessage, sampleMessages)"
proof -
  have r: "isRead readMessage" "readAt readMessage = Some 150" "recipient readMessage = user_id bob"
    by (simp_all add: readMessage_def sampleMessage_def)
  have once: "messages_markRead sampleMessages bob ''64b7f1a2c3d4e5f6a7b8c9a1'' t
      = (Sent (readMessage\<lparr>readAt := Some t\<rparr>),
         readMessage\<lparr>readAt := Some t\<rparr> # tl sampleMessages)" for t
    unfolding messages_markRead_def sample_read_lookup
    by (simp add: saveDoc_def sampleMessages_def readMessage_def sampleMessage_def Let_def)
  have again: "messages_markRead (readMessage\<lparr>readAt := Some 500\<rparr> # tl sampleMessages) bob
        ''64b7f1a2c3d4e5f6a7b8c9a1'' 900
      = (Sent (readMessage\<lparr>readAt := Some 900\<rparr>),
         readMessage\<lparr>readAt := Some 900\<rparr> # tl sampleMessages)"
    by (simp add: messages_markRead_def findById_def message_ids saveDoc_def sampleMessages_def
        readMessage_def sampleMessage_def bob_def Let_def)
  have differ: "readMessage\<lparr>readAt := Some 900\<rparr> \<noteq> readMessage\<lparr>readAt := Some 500\<rparr>"
    by (simp add: readMessage_def sampleMessage_def)
  have times: "map readAt (readMessage\<lparr>readAt := Some 900\<rparr> # tl sampleMessages)
      = [Some 900, None, None, None]"
    by (simp add: sampleMessages_def sampleMessage_def)
  have get: "messages_getById sampleUsers sampleMessages bob ''64b7f1a2c3d4e5f6a7b8c9a1'' 900
      = (Sent readMessage, sampleMessages)"
    unfolding messages_getById_def sample_read_lookup
    by (simp add: populateUser_def sampleUsers_def readMessage_def sampleMessage_def alice_def
        bob_def carol_def Let_def)
  show ?thesis using r once again differ times get by simp
qed

section \<open>Impact score\<close>

lemma capped_div:
  assumes "nonNegative m" "0 < d"
  shows "\<exists>w. num_min (num_div_pos m d) (Fin (of_nat c)) = Fin w \<and> 0 \<le> w \<and> w \<le> of_nat c"
proof (cases m)
  case (Fin a)
  then have "0 \<le> a / d" using assms by simp
  then have "fl (a / d) = PosInf \<or> (\<exists>v. fl (a / d) = Fin v \<and> 0 \<le> v)" by (rule fl_nonneg)
  then show ?thesis using Fin by auto
next
  case PosInf
  then show ?thesis by simp
next
  case NegInf
  then show ?thesis using assms by simp
next
  case NaN
  then show ?thesis using assms by simp
qed

lemma capped_plain:
  assumes "nonNegative m"
  shows "\<exists>w. num_min m (Fin (of_nat c)) = Fin w \<and> 0 \<le> w \<and> w \<le> of_nat c"
  using assms by (cases m) auto

lemma add_bounded:
  assumes "0 \<le> s" "s \<le> of_nat K" "0 \<le> w" "w \<le> of_nat c" "K + c < 2 ^ 53"
  shows "\<exists>v. num_add (Fin s) (Fin w) = Fin v \<and> 0 \<le> v \<and> v \<le> of_nat (K + c)"
  using fl_bounded [of "s + w" "K + c"] assms by simp

lemma impactSum_bounded:
  assumes "nonNegative (peopleReached m)" "nonNegative (hoursVolunteered m)"
    "nonNegative (fundsRaised m)" "nonNegative (environmentalImpact m)"
    "nonNegative (socialConnections m)"
  shows "\<exists>s. impactSum m = Fin s \<and> 0 \<le> s \<and> s \<le> 100"
proof -
  obtain w1 where w1: "num_min (num_div_pos (peopleReached m) 100) (Fin 25) = Fin w1"
    "0 \<le> w1" "w1 \<le> of_nat 25"
    using capped_div [OF assms(1), of 100 25] by auto
  obtain w2 where w2: "num_min (num_div_pos (hoursVolunteered m) 100) (Fin 25) = Fin w2"
    "0 \<le> w2" "w2 \<le> of_nat 25"
    using capped_div [OF assms(2), of 100 25] by auto
  obtain w3 where w3: "num_min (num_div_pos (fundsRaised m) 1000) (Fin 20) = Fin w3"
    "0 \<le> w3" "w3 \<le> of_nat 20"
    using capped_div [OF assms(3), of 1000 20] by auto
  obtain w4 where w4: "num_min (environmentalImpact m) (Fin 15) = Fin w4"
    "0 \<le> w4" "w4 \<le> of_nat 15"
    using capped_plain [OF assms(4), of 15] by auto
  obtain w5 where w5: "num_min (num_div_pos (socialConnections m) 10) (Fin 15) = Fin w5"
    "0 \<le> w5" "w5 \<le> of_nat 15"
    using capped_div [OF assms(5), of 10 15] by auto
  obtain s1 where s1: "num_add (Fin 0) (Fin w1) = Fin s1" "0 \<le> s1" "s1 \<le> of_nat (0 + 25)"
    using add_bounded [of 0 0 w1 25] w1 by auto
  obtain s2 where s2: "num_add (Fin s1) (Fin w2) = Fin s2" "0 \<le> s2" "s2 \<le> of_nat (25 + 25)"
    using add_bounded [of s1 25 w2 25] s1 w2 by auto
  obtain s3 where s3: "num_add (Fin s2) (Fin w3) = Fin s3" "0 \<le> s3" "s3 \<le> of_nat (50 + 20)"
    using add_bounded [of s2 50 w3 20] s2 w3 by auto
  obtain s4 where s4: "num_add (Fin s3) (Fin w4) = Fin s4" "0 \<le> s4" "s4 \<le> of_nat (70 + 15)"
    using add_bounded [of s3 70 w4 15] s3 w4 by auto
  obtain s5 where s5: "num_add (Fin s4) (Fin w5) = Fin s5" "0 \<le> s5" "s5 \<le> of_nat (85 + 15)"
    using add_bounded [of s4 85 w5 15] s4 w5 by auto
  have "impactSum m = Fin s5"
    by (simp only: impactSum_def Let_def w1(1) w2(1) w3(1) w4(1) w5(1) s1(1) s2(1) s3(1) s4(1) s5(1))
  then show ?thesis using s5(2,3) by simp
qed

lemma math_round_nearest:
  "\<exists>n. math_round (Fin s) = Fin (of_int n) \<and> of_int n - 1 / 2 \<le> s \<and> s < of_int n + 1 / 2"
proof -
  let ?n = "\<lfloor>s + 1 / 2\<rfloor>"
  have a: "of_int ?n \<le> s + 1 / 2" and b: "s + 1 / 2 < of_int ?n + 1" by linarith+
  have "math_round (Fin s) = Fin (of_int ?n)" by simp
  moreover have "of_int ?n - 1 / 2 \<le> s" using a by linarith
  moreover have "s < of_int ?n + 1 / 2" using b by linarith
  ultimately show ?thesis by blast
qed

text \<open>
  C9. \<^verbatim>\<open>calculateImpactScore\<close> stores and returns \<^verbatim>\<open>Math.round\<close> of the sum of the five
  capped terms, added up from 0 in double arithmetic; whenever that sum is finite the score is
  the integer nearest to it, a half going up. The five caps add up to 100, and when no metric
  is negative the sum lies between 0 and 100 and the score is an integer between 0 and 100.
\<close>

theorem calculateImpactScore_capped:
  "snd (calculateImpactScore d) = impactScore (fst (calculateImpactScore d))
   \<and> impactScore (fst (calculateImpactScore d)) = math_round (impactSum (impactMetrics d))
   \<and> impactSum (impactMetrics d) =
       num_add (num_add (num_add (num_add (num_add (Fin 0)
         (num_min (num_div_pos (peopleReached (impactMetrics d)) 100) (Fin 25)))
         (num_min (num_div_pos (hoursVolunteered (impactMetrics d)) 100) (Fin 25)))
         (num_min (num_div_pos (fundsRaised (impactMetrics d)) 1000) (Fin 20)))
         (num_min (environmentalImpact (impactMetrics d)) (Fin 15)))
         (num_min (num_div_pos (socialConnections (impactMetrics d)) 10) (Fin 15))
   \<and> (25 + 25 + 20 + 15 + 15 = (100::rat))
   \<and> (impactSum (impactMetrics d) = Fin s \<longrightarrow>
        (\<exists>n. impactScore (fst (calculateImpactScore d)) = Fin (of_int n)
           \<and> of_int n - 1 / 2 \<le> s \<and> s < of_int n + 1 / 2))
   \<and> (nonNegative (peopleReached (impactMetrics d))
        \<and> nonNegative (hoursVolunteered (impactMetrics d))
        \<and> nonNegative (fundsRaised (impactMetrics d))
        \<and> nonNegative (environmentalImpact (impactMetrics d))
        \<and> nonNegative (socialConnections (impactMetrics d)) \<longrightarrow>
        (\<exists>t n. impactSum (impactMetrics d) = Fin t \<and> 0 \<le> t \<and> t \<le> 100
           \<and> impactScore (fst (calculateImpactScore d)) = Fin (of_int n)
           \<and> 0 \<le> n \<and> n \<le> 100))"
proof -
  let ?m = "impactMetrics d"
  let ?score = "impactScore (fst (calculateImpactScore d))"
  have ret: "snd (calculateImpactScore d) = ?score"
    by (simp add: calculateImpactScore_def Let_def)
  have score: "?score = math_round (impactSum ?m)"
    by (simp add: calculateImpactScore_def Let_def)
  have sum: "impactSum ?m =
       num_add (num_add (num_add (num_add (num_add (Fin 0)
         (num_min (num_div_pos (peopleReached ?m) 100) (Fin 25)))
         (num_min (num_div_pos (hoursVolunteered ?m) 100) (Fin 25)))
         (num_min (num_div_pos (fundsRaised ?m) 1000) (Fin 20)))
         (num_min (environmentalImpact ?m) (Fin 15)))
         (num_min (num_div_pos (socialConnections ?m) 10) (Fin 15))"
    by (simp only: impactSum_def Let_def)
  have nearest: "\<exists>n. ?score = Fin (of_int n) \<and> of_int n - 1 / 2 \<le> s \<and> s < of_int n + 1 / 2"
    if "impactSum ?m = Fin s"
    unfolding score that by (rule math_round_nearest)
  have bounded: "\<exists>t n. impactSum ?m = Fin t \<and> 0 \<le> t \<and> t \<le> 100
      \<and> ?score = Fin (of_int n) \<and> 0 \<le> n \<and> n \<le> 100"
    if "nonNegative (peopleReached ?m) \<and> nonNegative (hoursVolunteered ?m)
      \<and> nonNegative (fundsRaised ?m) \<and> nonNegative (environmentalImpact ?m)
      \<and> nonNegative (socialConnections ?m)"
  proof -
    from that obtain t where t: "impactSum ?m = Fin t" "0 \<le> t" "t \<le> 100"
      using impactSum_bounded [of ?m] by blast
    have n: "?score = Fin (of_int \<lfloor>t + 1 / 2\<rfloor>)" by (simp add: score t(1))
    have "0 \<le> \<lfloor>t + 1 / 2\<rfloor>" using t(2) by simp
    moreover have "t + 1 / 2 < of_int (101::int)" using t(3) by simp
    then have "\<lfloor>t + 1 / 2\<rfloor> < 101" by (simp only: floor_less_iff)
    ultimately show ?thesis using t n by (intro exI [of _ t] exI [of _ "\<lfloor>t + 1 / 2\<rfloor>"]) simp
  qed
  show ?thesis using ret score sum nearest bounded by (intro conjI impI) simp_all
qed

theorem calculateImpactScore_capped_witness:
  "nonNegative (peopleReached lowMetrics) \<and> nonNegative (hoursVolunteered lowMetrics)
   \<and> nonNegative (fundsRaised lowMetrics) \<and> nonNegative (environmentalImpact lowMetrics)
   \<and> nonNegative (socialConnections lowMetrics)
   \<and> impactSum lowMetrics = Fin (6755399441055743 / 4503599627370496)
   \<and> impactScore (fst (calculateImpactScore (sampleInitiative\<lparr>impactMetrics := lowMetrics\<rparr>)))
       = Fin 1
   \<and> (\<exists>t n. impactSum lowMetrics = Fin t \<and> 0 \<le> t \<and> t \<le> 100
         \<and> impactScore (fst (calculateImpactScore (sampleInitiative\<lparr>impactMetrics := lowMetrics\<rparr>)))
             = Fin (of_int n)
         \<and> 0 \<le> n \<and> n \<le> 100)
   \<and> nonNegative (peopleReached halfwayMetrics) \<and> nonNegative (hoursVolunteered halfwayMetrics)
   \<and> nonNegative (fundsRaised halfwayMetrics) \<and> nonNegative (environmentalImpact halfwayMetrics)
   \<and> nonNegative (socialConnections halfwayMetrics)
   \<and> impactSum halfwayMetrics = Fin (105 / 2)
   \<and> impactScore (fst (calculateImpactScore (sampleInitiative\<lparr>impactMetrics := halfwayMetrics\<rparr>)))
       = Fin 53"
proof -
  let ?low = "sampleInitiative\<lparr>impactMetrics := lowMetrics\<rparr>"
  let ?half = "sampleInitiative\<lparr>impactMetrics := halfwayMetrics\<rparr>"
  have nn: "nonNegative (peopleReached lowMetrics)" "nonNegative (hoursVolunteered lowMetrics)"
    "nonNegative (fundsRaised lowMetrics)" "nonNegative (environmentalImpact lowMetrics)"
    "nonNegative (socialConnections lowMetrics)"
    "nonNegative (peopleReached halfwayMetrics)" "nonNegative (hoursVolunteered halfwayMetrics)"
    "nonNegative (fundsRaised halfwayMetrics)" "nonNegative (environmentalImpact halfwayMetrics)"
    "nonNegative (socialConnections halfwayMetrics)"
    by (simp_all add: lowMetrics_def halfwayMetrics_def)
  have m: "impactMetrics ?low = lowMetrics" "impactMetrics ?half = halfwayMetrics" by simp_all
  obtain n where n: "impactScore (fst (calculateImpactScore ?low)) = Fin (of_int n)"
    "of_int n - 1 / 2 \<le> (6755399441055743 / 4503599627370496 :: rat)"
    "(6755399441055743 / 4503599627370496 :: rat) < of_int n + 1 / 2"
    using calculateImpactScore_capped [of ?low "6755399441055743 / 4503599627370496"]
      lowMetrics_sum unfolding m by blast
  have "n = 1" using n(2,3) by linarith
  then have low: "impactScore (fst (calculateImpactScore ?low)) = Fin 1" using n(1) by simp
  obtain k where k: "impactScore (fst (calculateImpactScore ?half)) = Fin (of_int k)"
    "of_int k - 1 / 2 \<le> (105 / 2 :: rat)" "(105 / 2 :: rat) < of_int k + 1 / 2"
    using calculateImpactScore_capped [of ?half "105 / 2"] halfwayMetrics_sum
    unfolding m by blast
  have "k = 53" using k(2,3) by linarith
  then have half: "impactScore (fst (calculateImpactScore ?half)) = Fin 53" using k(1) by simp
  have range: "\<exists>t n. impactSum lowMetrics = Fin t \<and> 0 \<le> t \<and> t \<le> 100
      \<and> impactScore (fst (calculateImpactScore ?low)) = Fin (of_int n) \<and> 0 \<le> n \<and> n \<le> 100"
    using calculateImpactScore_capped [of ?low] nn(1-5) unfolding m by blast
  show ?thesis using nn lowMetrics_sum halfwayMetrics_sum low half range by simp
qed

section \<open>Sending a message to oneself\<close>

lemma self_send_same_string_refused:
  assumes "findById user_id users (user_id reqUser) = Inr (Some r)"
    and "body_recipient b = user_id reqUser"
  shows "snd (messages_post users db reqUser newId now b) = db
    \<and> (fst (messages_post users db reqUser newId now b) = SentErrors 400 (validationErrors b)
       \<or> fst (messages_post users db reqUser newId now b)
           = SentMessage 400 ''Cannot send message to yourself'')"
  using assms by (simp add: messages_post_def)

lemma messages_post_persists_only_checked:
  assumes "snd (messages_post users db reqUser newId now b) \<noteq> db"
  shows "(\<exists>r. findById user_id users (body_recipient b) = Inr (Some r))
    \<and> body_recipient b \<noteq> user_id reqUser"
  using assms by (auto simp: messages_post_def split: if_splits sum.splits option.splits)

text \<open>
  C10, evaluated. Alice's id is \<^verbatim>\<open>64b7f1a2c3d4e5f6a7b8c9d1\<close>. A body that names the recipient
  by the same digits in upper case passes \<^verbatim>\<open>isMongoId\<close>, finds Alice as recipient, is not
  \<^verbatim>\<open>===\<close> to \<^verbatim>\<open>req.user.id\<close>, and a message whose sender and recipient are both Alice is
  stored. The lower-case spelling is refused with 400.
\<close>

theorem self_message_by_upper_case_id:
  "castObjectId ''64B7F1A2C3D4E5F6A7B8C9D1'' = Inr (user_id alice)
   \<and> messages_post sampleUsers [] alice ''64b7f1a2c3d4e5f6a7b8c9a9'' 1000
        \<lparr>body_recipient = ''64B7F1A2C3D4E5F6A7B8C9D1'', body_subject = ''note'',
         body_content = ''to self'', body_messageType = None, body_priority = None,
         body_initiative = None, body_event = None\<rparr>
       = (Sent ((sampleMessage ''64b7f1a2c3d4e5f6a7b8c9a9'' 1000 alice alice)
                  \<lparr>subject := ''note'', content := ''to self''\<rparr>),
          [(sampleMessage ''64b7f1a2c3d4e5f6a7b8c9a9'' 1000 alice alice)
             \<lparr>subject := ''note'', content := ''to self''\<rparr>])
   \<and> sender (sampleMessage ''64b7f1a2c3d4e5f6a7b8c9a9'' 1000 alice alice)
       = recipient (sampleMessage ''64b7f1a2c3d4e5f6a7b8c9a9'' 1000 alice alice)
   \<and> messages_post sampleUsers [] alice ''64b7f1a2c3d4e5f6a7b8c9a9'' 1000
        \<lparr>body_recipient = ''64b7f1a2c3d4e5f6a7b8c9d1'', body_subject = ''note'',
         body_content = ''to self'', body_messageType = None, body_priority = None,
         body_initiative = None, body_event = None\<rparr>
       = (SentMessage 400 ''Cannot send message to yourself'', [])"
proof -
  have up: "castObjectId ''64B7F1A2C3D4E5F6A7B8C9D1'' = Inr (user_id alice)"
    and low: "castObjectId ''64b7f1a2c3d4e5f6a7b8c9d1'' = Inr (user_id alice)"
    by (simp_all add: castObjectId_def isHexDigit_def lowerHex_def alice_def)
  have valid: "validationErrors
       \<lparr>body_recipient = ''64B7F1A2C3D4E5F6A7B8C9D1'', body_subject = ''note'',
        body_content = ''to self'', body_messageType = None, body_priority = None,
        body_initiative = None, body_event = None\<rparr> = []"
    "validationErrors
       \<lparr>body_recipient = ''64b7f1a2c3d4e5f6a7b8c9d1'', body_subject = ''note'',
        body_content = ''to self'', body_messageType = None, body_priority = None,
        body_initiative = None, body_event = None\<rparr> = []"
    by (simp_all add: validationErrors_def isMongoId_def isHexDigit_def)
  have found: "findById user_id sampleUsers ''64B7F1A2C3D4E5F6A7B8C9D1'' = Inr (Some alice)"
    "findById user_id sampleUsers ''64b7f1a2c3d4e5f6a7b8c9d1'' = Inr (Some alice)"
    by (simp_all add: findById_def up low sampleUsers_def)
  have differ: "''64B7F1A2C3D4E5F6A7B8C9D1'' \<noteq> user_id alice"
    by (simp add: alice_def)
  have same: "''64b7f1a2c3d4e5f6a7b8c9d1'' = user_id alice"
    by (simp add: alice_def)
  have trimmed: "js_trim ''note'' = ''note''"
    by (simp add: js_trim_def isSpace_def)
  have made: "newMessage ''64b7f1a2c3d4e5f6a7b8c9a9'' 1000 alice
       \<lparr>body_recipient = ''64B7F1A2C3D4E5F6A7B8C9D1'', body_subject = ''note'',
        body_content = ''to self'', body_messageType = None, body_priority = None,
        body_initiative = None, body_event = None\<rparr>
      = Inr ((sampleMessage ''64b7f1a2c3d4e5f6a7b8c9a9'' 1000 alice alice)
               \<lparr>subject := ''note'', content := ''to self''\<rparr>)"
    by (simp add: newMessage_def up castOptionalId_def trimmed sampleMessage_def)
  have sent: "messages_post sampleUsers [] alice ''64b7f1a2c3d4e5f6a7b8c9a9'' 1000
        \<lparr>body_recipient = ''64B7F1A2C3D4E5F6A7B8C9D1'', body_subject = ''note'',
         body_content = ''to self'', body_messageType = None, body_priority = None,
         body_initiative = None, body_event = None\<rparr>
       = (Sent ((sampleMessage ''64b7f1a2c3d4e5f6a7b8c9a9'' 1000 alice alice)
                  \<lparr>subject := ''note'', content := ''to self''\<rparr>),
          [(sampleMessage ''64b7f1a2c3d4e5f6a7b8c9a9'' 1000 alice alice)
             \<lparr>subject := ''note'', content := ''to self''\<rparr>])"
    unfolding messages_post_def valid
    using found(1) differ made by simp
  have refused: "messages_post sampleUsers [] alice ''64b7f1a2c3d4e5f6a7b8c9a9'' 1000
        \<lparr>body_recipient = ''64b7f1a2c3d4e5f6a7b8c9d1'', body_subject = ''note'',
         body_content = ''to self'', body_messageType = None, body_priority = None,
         body_initiative = None, body_event = None\<rparr>
       = (SentMessage 400 ''Cannot send message to yourself'', [])"
    unfolding messages_post_def valid
    using found(2) same by simp
  have loop: "sender (sampleMessage ''64b7f1a2c3d4e5f6a7b8c9a9'' 1000 alice alice)
       = recipient (sampleMessage ''64b7f1a2c3d4e5f6a7b8c9a9'' 1000 alice alice)"
    by (simp add: sampleMessage_def)
  show ?thesis using up sent loop refused by simp
qed


end
